theory Spec2Isabelle
  imports Main "HOL-Library.Sublist"
begin


section \<open>Python strings and exceptions\<close>

text \<open>The exceptions that the modelled code can raise.\<close>

datatype py_error = AttributeError | IndexError | KeyError | TypeError | RecursionError

text \<open>\<^verbatim>\<open>sub in s\<close> on strings: \<open>sub\<close> occurs in \<open>s\<close> as a contiguous substring.\<close>

fun str_in :: "string \<Rightarrow> string \<Rightarrow> bool" where
  "str_in sub [] = (sub = [])"
| "str_in sub (c # cs) = (prefix sub (c # cs) \<or> str_in sub cs)"

text \<open>\<^verbatim>\<open>s.split(sep)\<close> for a one-character separator; the result is never empty.\<close>

fun split :: "char \<Rightarrow> string \<Rightarrow> string list" where
  "split sep [] = [[]]"
| "split sep (c # cs) =
     (if c = sep then [] # split sep cs
      else (case split sep cs of w # ws \<Rightarrow> (c # w) # ws | [] \<Rightarrow> [[c]]))"

text \<open>\<^verbatim>\<open>sep.join(xs)\<close>.\<close>

fun join :: "string \<Rightarrow> string list \<Rightarrow> string" where
  "join sep [] = []"
| "join sep [x] = x"
| "join sep (x # y # r) = x @ sep @ join sep (y # r)"

text \<open>\<^verbatim>\<open>xs[i]\<close> for \<open>i \<ge> 0\<close>, which raises \<^verbatim>\<open>IndexError\<close> out of range.\<close>

definition index :: "'a list \<Rightarrow> nat \<Rightarrow> py_error + 'a" where
  "index xs i = (if i < length xs then Inr (xs ! i) else Inl IndexError)"


section \<open>JSON values and pruning (utils.py)\<close>

text \<open>
  The reports of the inspector are Python dictionaries, lists and leaves that are
  written with \<^verbatim>\<open>json.dump\<close>.  A dictionary keeps its insertion order and
  has one entry per key, so it is an association list that is only ever extended
  through \<open>dict_set\<close>, the model of \<^verbatim>\<open>d[k] = v\<close>.
\<close>

datatype json =
    JNull
  | JBool bool
  | JInt int
  | JStr string
  | JList "json list"
  | JDict "(string \<times> json) list"

text \<open>Python truthiness of a value (\<^verbatim>\<open>if b:\<close>, \<^verbatim>\<open>filter(None, ...)\<close>).\<close>

fun truthy :: "json \<Rightarrow> bool" where
  "truthy JNull = False"
| "truthy (JBool b) = b"
| "truthy (JInt n) = (n \<noteq> 0)"
| "truthy (JStr s) = (s \<noteq> [])"
| "truthy (JList xs) = (xs \<noteq> [])"
| "truthy (JDict d) = (d \<noteq> [])"

text \<open>\<^verbatim>\<open>d[k] = v\<close>: replace the value of an existing key in place, else append.\<close>

fun dict_set :: "'k \<Rightarrow> 'v \<Rightarrow> ('k \<times> 'v) list \<Rightarrow> ('k \<times> 'v) list" where
  "dict_set k v [] = [(k, v)]"
| "dict_set k v (p # ps) = (if fst p = k then (k, v) # ps else p # dict_set k v ps)"

text \<open>
  \<^verbatim>\<open>
  def prune_json(json_dict):
      final_dict = {}
      if not (isinstance(json_dict, dict)):
          # Ensure the element provided is a dict
          return json_dict
      else:
          for a, b in json_dict.items():
              if b:
                  if isinstance(b, dict):
                      aux_dict = prune_json(b)
                      if aux_dict:  # Remove empty dicts
                          final_dict[a] = aux_dict
                  elif isinstance(b, list):
                      aux_list = list(filter(None, [prune_json(i) for i in b]))
                      if len(aux_list) > 0:  # Remove empty lists
                          final_dict[a] = aux_list
                  else:
                      final_dict[a] = b
      return final_dict
  \<close>
  \<open>prune_items\<close> is the \<^verbatim>\<open>for\<close> loop over the items, with \<open>final_dict\<close> as its
  accumulator; \<open>prune_elems\<close> is the list comprehension.
\<close>

function prune_json :: "json \<Rightarrow> json"
  and prune_items :: "(string \<times> json) list \<Rightarrow> (string \<times> json) list \<Rightarrow> (string \<times> json) list"
  and prune_elems :: "json list \<Rightarrow> json list"
where
  "prune_json (JDict d) = JDict (prune_items d [])"
| "prune_json JNull = JNull"
| "prune_json (JBool b) = JBool b"
| "prune_json (JInt n) = JInt n"
| "prune_json (JStr s) = JStr s"
| "prune_json (JList xs) = JList xs"
| "prune_items [] final_dict = final_dict"
| "prune_items ((a, b) # rest) final_dict =
     (if truthy b then
        (case b of
           JDict d \<Rightarrow>
             (let aux_dict = prune_json (JDict d) in
              if truthy aux_dict then prune_items rest (dict_set a aux_dict final_dict)
              else prune_items rest final_dict)
         | JList xs \<Rightarrow>
             (let aux_list = filter truthy (prune_elems xs) in
              if length aux_list > 0 then prune_items rest (dict_set a (JList aux_list) final_dict)
              else prune_items rest final_dict)
         | _ \<Rightarrow> prune_items rest (dict_set a b final_dict))
      else prune_items rest final_dict)"
| "prune_elems [] = []"
| "prune_elems (i # b) = prune_json i # prune_elems b"
  by pat_completeness auto
termination
  by (relation "measure (\<lambda>x. case x of
        Inl t \<Rightarrow> 2 * size t
      | Inr (Inl (d, acc)) \<Rightarrow> 2 * size_list (size_prod (\<lambda>_. 0) size) d + 1
      | Inr (Inr xs) \<Rightarrow> 2 * size_list size xs + 1)") auto

subsection \<open>What pruning leaves behind\<close>

text \<open>
  \<open>has_empty t\<close>: an empty mapping, an empty sequence or a falsy leaf occurs somewhere
  in \<open>t\<close>, at any depth (the root included).
\<close>

fun has_empty :: "json \<Rightarrow> bool"
  and has_empty_items :: "(string \<times> json) list \<Rightarrow> bool"
  and has_empty_elems :: "json list \<Rightarrow> bool"
where
  "has_empty (JDict d) = (d = [] \<or> has_empty_items d)"
| "has_empty (JList xs) = (xs = [] \<or> has_empty_elems xs)"
| "has_empty JNull = True"
| "has_empty (JBool b) = (b = False)"
| "has_empty (JInt n) = (n = 0)"
| "has_empty (JStr s) = (s = [])"
| "has_empty_items [] = False"
| "has_empty_items ((k, v) # r) = (has_empty v \<or> has_empty_items r)"
| "has_empty_elems [] = False"
| "has_empty_elems (x # xs) = (has_empty x \<or> has_empty_elems xs)"

text \<open>
  \<open>pruned_items d\<close>: nothing empty is left at the positions that pruning visits.  Every
  value of the mapping is truthy; a mapping value is itself pruned; the elements of a
  sequence value are truthy, and those that are mappings are pruned.  A sequence that is
  an element of a sequence is only required to be non-empty: its contents are not visited.
\<close>

fun pruned_value :: "json \<Rightarrow> bool"
  and pruned_items :: "(string \<times> json) list \<Rightarrow> bool"
  and pruned_elems :: "json list \<Rightarrow> bool"
where
  "pruned_value (JDict d) = (d \<noteq> [] \<and> pruned_items d)"
| "pruned_value (JList xs) = (xs \<noteq> [] \<and> pruned_elems xs)"
| "pruned_value JNull = False"
| "pruned_value (JBool b) = b"
| "pruned_value (JInt n) = (n \<noteq> 0)"
| "pruned_value (JStr s) = (s \<noteq> [])"
| "pruned_items [] = True"
| "pruned_items ((k, v) # r) = (pruned_value v \<and> pruned_items r)"
| "pruned_elems [] = True"
| "pruned_elems (x # xs) =
     (truthy x \<and> (case x of JDict d \<Rightarrow> pruned_items d | _ \<Rightarrow> True) \<and> pruned_elems xs)"

text \<open>
  \<open>all_keys_truthy t\<close>: every key of every mapping that occurs anywhere in \<open>t\<close> maps to
  a truthy value.
\<close>

fun all_keys_truthy :: "json \<Rightarrow> bool"
  and all_keys_truthy_items :: "(string \<times> json) list \<Rightarrow> bool"
  and all_keys_truthy_elems :: "json list \<Rightarrow> bool"
where
  "all_keys_truthy (JDict d) = all_keys_truthy_items d"
| "all_keys_truthy (JList xs) = all_keys_truthy_elems xs"
| "all_keys_truthy JNull = True"
| "all_keys_truthy (JBool b) = True"
| "all_keys_truthy (JInt n) = True"
| "all_keys_truthy (JStr s) = True"
| "all_keys_truthy_items [] = True"
| "all_keys_truthy_items ((k, v) # r) = (truthy v \<and> all_keys_truthy v \<and> all_keys_truthy_items r)"
| "all_keys_truthy_elems [] = True"
| "all_keys_truthy_elems (x # xs) = (all_keys_truthy x \<and> all_keys_truthy_elems xs)"

text \<open>
  \<open>keys_truthy_items d\<close>: the same, for the mappings that pruning visits: \<open>d\<close> itself, the
  mappings that are values of a visited mapping, and the mappings that are elements of a
  sequence value of a visited mapping.
\<close>

fun keys_truthy_value :: "json \<Rightarrow> bool"
  and keys_truthy_items :: "(string \<times> json) list \<Rightarrow> bool"
  and keys_truthy_elems :: "json list \<Rightarrow> bool"
where
  "keys_truthy_value (JDict d) = keys_truthy_items d"
| "keys_truthy_value (JList xs) = keys_truthy_elems xs"
| "keys_truthy_value JNull = True"
| "keys_truthy_value (JBool b) = True"
| "keys_truthy_value (JInt n) = True"
| "keys_truthy_value (JStr s) = True"
| "keys_truthy_items [] = True"
| "keys_truthy_items ((k, v) # r) = (truthy v \<and> keys_truthy_value v \<and> keys_truthy_items r)"
| "keys_truthy_elems [] = True"
| "keys_truthy_elems (x # xs) =
     ((case x of JDict d \<Rightarrow> keys_truthy_items d | _ \<Rightarrow> True) \<and> keys_truthy_elems xs)"

text \<open>
  \<open>norm_items d\<close>: the shape of a mapping built by \<open>prune_items\<close>: pruned, and with one
  entry per key.
\<close>

fun norm_value :: "json \<Rightarrow> bool"
  and norm_items :: "(string \<times> json) list \<Rightarrow> bool"
  and norm_elems :: "json list \<Rightarrow> bool"
where
  "norm_value (JDict d) = (d \<noteq> [] \<and> norm_items d)"
| "norm_value (JList xs) = (xs \<noteq> [] \<and> norm_elems xs)"
| "norm_value JNull = False"
| "norm_value (JBool b) = b"
| "norm_value (JInt n) = (n \<noteq> 0)"
| "norm_value (JStr s) = (s \<noteq> [])"
| "norm_items [] = True"
| "norm_items ((k, v) # r) = (k \<notin> fst ` set r \<and> norm_value v \<and> norm_items r)"
| "norm_elems [] = True"
| "norm_elems (x # xs) =
     (truthy x \<and> (case x of JDict d \<Rightarrow> norm_items d | _ \<Rightarrow> True) \<and> norm_elems xs)"

section \<open>Dominant software type (utils.py)\<close>

text \<open>
  A software-invocation record.  The classifier builds
  \<^verbatim>\<open>{"type": ..., "run": ..., "has_structure": ...}\<close>; records of other producers carry
  their further fields in the record's extension.
\<close>

record soft_info =
  type :: string
  run :: string
  has_structure :: string

text \<open>
  \<^verbatim>\<open>
  def extract_software_type(soft_invocation_info_list):
      services = []
      scripts = []
      for entry in soft_invocation_info_list:
          if "library" in entry["type"] or "package" in entry["type"]:
              return entry["type"]
          if "service" in entry["type"]:
              services.append(entry)
          if "script" in entry["type"]:  # It does not matter whether it's with or without main here, we only return type
              scripts.append(entry)
      if len(services) > 0:
          return "service"
      if len(scripts) > 0:
          return "script"
      return "not found"
  \<close>
\<close>

fun extract_software_type_loop ::
  "'a soft_info_scheme list \<Rightarrow> 'a soft_info_scheme list \<Rightarrow> 'a soft_info_scheme list \<Rightarrow> string"
where
  "extract_software_type_loop [] services scripts =
     (if length services > 0 then ''service''
      else if length scripts > 0 then ''script''
      else ''not found'')"
| "extract_software_type_loop (entry # rest) services scripts =
     (if str_in ''library'' (type entry) \<or> str_in ''package'' (type entry) then type entry
      else
        let services = (if str_in ''service'' (type entry) then services @ [entry] else services);
            scripts = (if str_in ''script'' (type entry) then scripts @ [entry] else scripts)
        in extract_software_type_loop rest services scripts)"

definition extract_software_type :: "'a soft_info_scheme list \<Rightarrow> string" where
  "extract_software_type soft_invocation_info_list =
     extract_software_type_loop soft_invocation_info_list [] []"





section \<open>File-level metadata (code_inspector.py, inspect_file)\<close>

text \<open>
  The functions of \<^verbatim>\<open>os.path\<close> (POSIX flavour) that \<^verbatim>\<open>inspect_file\<close> calls.
  \<^verbatim>\<open>
  def isabs(s):    return s.startswith('/')
  def basename(p): i = p.rfind('/') + 1; return p[i:]
  def join(a, b):
      if b.startswith('/'): path = b
      elif not a or a.endswith('/'): path = a + b
      else: path = a + '/' + b
      return path
  def normpath(path):
      if not path: return '.'
      initial_slashes = path.startswith('/')
      if initial_slashes and path.startswith('//') and not path.startswith('///'):
          initial_slashes = 2
      comps = path.split('/')
      new_comps = []
      for comp in comps:
          if comp in ('', '.'): continue
          if (comp != '..' or (not initial_slashes and not new_comps) or
               (new_comps and new_comps[-1] == '..')):
              new_comps.append(comp)
          elif new_comps:
              new_comps.pop()
      path = '/'.join(new_comps)
      if initial_slashes: path = '/' * initial_slashes + path
      return path or '.'
  def abspath(path):
      if not isabs(path): path = join(os.getcwd(), path)
      return normpath(path)
  \<close>
  The current working directory is a parameter; the loop variable \<^verbatim>\<open>comp\<close> is \<open>c\<close>.
\<close>

definition isabs :: "string \<Rightarrow> bool" where
  "isabs s = prefix ''/'' s"

definition basename :: "string \<Rightarrow> string" where
  "basename p = rev (takeWhile (\<lambda>c. c \<noteq> CHR ''/'') (rev p))"

definition path_join :: "string \<Rightarrow> string \<Rightarrow> string" where
  "path_join a b =
     (if prefix ''/'' b then b
      else if a = [] \<or> suffix ''/'' a then a @ b
      else a @ ''/'' @ b)"

fun normpath_loop :: "nat \<Rightarrow> string list \<Rightarrow> string list \<Rightarrow> string list" where
  "normpath_loop initial_slashes [] new_comps = new_comps"
| "normpath_loop initial_slashes (c # comps) new_comps =
     (if c = [] \<or> c = ''.'' then normpath_loop initial_slashes comps new_comps
      else if c \<noteq> ''..'' \<or> (initial_slashes = 0 \<and> new_comps = [])
                \<or> (new_comps \<noteq> [] \<and> last new_comps = ''..'')
        then normpath_loop initial_slashes comps (new_comps @ [c])
      else if new_comps \<noteq> [] then normpath_loop initial_slashes comps (butlast new_comps)
      else normpath_loop initial_slashes comps new_comps)"

definition normpath :: "string \<Rightarrow> string" where
  "normpath path =
     (if path = [] then ''.''
      else
        let initial_slashes =
              (if prefix ''/'' path
               then (if prefix ''//'' path \<and> \<not> prefix ''///'' path then 2 else 1)
               else (0::nat));
            comps = split CHR ''/'' path;
            new_comps = normpath_loop initial_slashes comps [];
            path = join ''/'' new_comps;
            path = (if initial_slashes \<noteq> 0 then replicate initial_slashes CHR ''/'' @ path else path)
        in if path = [] then ''.'' else path)"

definition abspath :: "string \<Rightarrow> string \<Rightarrow> string" where
  "abspath cwd path = normpath (if \<not> isabs path then path_join cwd path else path)"

text \<open>
  \<^verbatim>\<open>
  def inspect_file(self):
      file_info = {}
      file_info["path"] = os.path.abspath(self.path)
      file_name = os.path.basename(self.path).split(".")
      file_info["fileNameBase"] = file_name[0]
      file_info["extension"] = file_name[1]
      ds_m = ast.get_docstring(self.tree)
      docstring = doc_parse(ds_m)
      file_info["doc"] = {}
      file_info["doc"]["long_description"] = docstring.long_description if docstring.long_description else {}
      file_info["doc"]["short_description"] = docstring.short_description if docstring.short_description else {}
      file_info["doc"]["full"] = ds_m if ds_m else {}
      return file_info
  \<close>
  The module docstring \<open>ds_m\<close> and the two descriptions that the docstring parser
  returns for it are parameters; a string that is absent is \<open>None\<close>.
\<close>

record docstring =
  long_description :: "string option"
  short_description :: "string option"

record file_info =
  path :: string
  fileNameBase :: string
  extension :: string
  doc :: json

text \<open>\<^verbatim>\<open>x if x else {}\<close> for an optional string \<open>x\<close>.\<close>

definition str_or_empty_dict :: "string option \<Rightarrow> json" where
  "str_or_empty_dict x = (case x of Some s \<Rightarrow> (if s \<noteq> [] then JStr s else JDict []) | None \<Rightarrow> JDict [])"

definition inspect_file :: "string \<Rightarrow> string \<Rightarrow> string option \<Rightarrow> docstring \<Rightarrow> py_error + file_info" where
  "inspect_file cwd self_path ds_m docstring =
     (let file_name = split CHR ''.'' (basename self_path) in
      case index file_name 0 of
        Inl e \<Rightarrow> Inl e
      | Inr name0 \<Rightarrow>
          (case index file_name 1 of
             Inl e \<Rightarrow> Inl e
           | Inr name1 \<Rightarrow>
               Inr \<lparr> path = abspath cwd self_path,
                     fileNameBase = name0,
                     extension = name1,
                     doc = JDict
                       (dict_set ''full'' (str_or_empty_dict ds_m)
                       (dict_set ''short_description'' (str_or_empty_dict (short_description docstring))
                       (dict_set ''long_description'' (str_or_empty_dict (long_description docstring))
                        []))) \<rparr>))"

text \<open>The part of a file name after its first \<^verbatim>\<open>.\<close> (empty when there is none).\<close>

definition after_first_dot :: "string \<Rightarrow> string" where
  "after_first_dot name = drop 1 (dropWhile (\<lambda>c. c \<noteq> CHR ''.'') name)"


section \<open>Command-line entry point (code_inspector.py, main)\<close>

text \<open>
  \<^verbatim>\<open>
  def main(input_path, fig, output_dir, ignore_dir_pattern, ignore_file_pattern, requirements, html_output, call_list):
      if (not os.path.isfile(input_path)) and (not os.path.isdir(input_path)):
          print('The file or directory specified does not exist')
          sys.exit()
      if os.path.isfile(input_path):
          (single-file mode)
      else:
          (directory mode)
  \<close>
  A run of the process is what it has printed and how it ended.  \<^verbatim>\<open>sys.exit(arg)\<close>
  raises \<^verbatim>\<open>SystemExit(arg)\<close>, which nothing in the program catches; the interpreter
  then ends the process with status \<open>0\<close> when \<open>arg\<close> is \<^verbatim>\<open>None\<close> and with the
  integer \<open>arg\<close> otherwise.  A run whose command returns ends with status \<open>0\<close>.
  The file system (\<open>isfile\<close>, \<open>isdir\<close>) and the two modes of inspection are parameters.
\<close>

datatype outcome = Returned | SystemExit "int option"

record run =
  stdout :: "string list"
  outcome :: outcome

definition print :: "string \<Rightarrow> run \<Rightarrow> run" where
  "print line r = r\<lparr>stdout := stdout r @ [line]\<rparr>"

definition sys_exit :: "int option \<Rightarrow> run \<Rightarrow> run" where
  "sys_exit arg r = r\<lparr>outcome := SystemExit arg\<rparr>"

fun exit_status :: "outcome \<Rightarrow> int" where
  "exit_status Returned = 0"
| "exit_status (SystemExit None) = 0"
| "exit_status (SystemExit (Some n)) = n"

definition main ::
  "(string \<Rightarrow> bool) \<Rightarrow> (string \<Rightarrow> bool) \<Rightarrow> (string \<Rightarrow> run \<Rightarrow> run) \<Rightarrow> (string \<Rightarrow> run \<Rightarrow> run)
     \<Rightarrow> string \<Rightarrow> run"
where
  "main isfile isdir single_file_mode directory_mode input_path =
     (let r = \<lparr>stdout = [], outcome = Returned\<rparr> in
      if \<not> isfile input_path \<and> \<not> isdir input_path then
        sys_exit None (print ''The file or directory specified does not exist'' r)
      else if isfile input_path then single_file_mode input_path r
      else directory_mode input_path r)"

text \<open>
  A file system on which no path exists, one on which a single path exists, and a mode of
  inspection that does nothing.
\<close>

definition nothing_exists :: "string \<Rightarrow> bool" where
  "nothing_exists p = False"

definition only_exists :: "string \<Rightarrow> string \<Rightarrow> bool" where
  "only_exists f p = (p = f)"

definition no_inspection :: "string \<Rightarrow> run \<Rightarrow> run" where
  "no_inspection p r = r"


section \<open>Syntax trees and raw call names (code_inspector.py)\<close>

text \<open>
  The node shapes of Python's \<^verbatim>\<open>ast\<close> module that the inspector looks at.  A constant
  is an \<^verbatim>\<open>ast.Constant\<close>, whose attribute \<^verbatim>\<open>s\<close> is its value (a string, an
  integer, a truth value, \<^verbatim>\<open>None\<close>, or \<open>COther\<close> for a float, bytes or
  \<^verbatim>\<open>...\<close>); the operators of a
  comparison are never read and are left out.  \<open>OtherExpr\<close> stands for every other
  expression (it is not a name, attribute, call, subscript, constant or comparison and has
  none of their attributes).
\<close>

datatype py_const = CStr string | CNum int | CBool bool | CNone | COther

datatype expr =
    Name string
  | Attribute expr string
  | Call expr "expr list"
  | Subscript expr expr
  | Constant py_const
  | Compare expr "expr list"
  | OtherExpr

text \<open>
  Statements: \<open>If test body orelse\<close>; the five statements that have an attribute
  \<^verbatim>\<open>value\<close>, which are \<open>Expr value\<close>, \<open>Assign targets value\<close>,
  \<open>AugAssign target value\<close> (\<^verbatim>\<open>x += e\<close>, the operator left out),
  \<open>AnnAssign target annotation value\<close> (\<^verbatim>\<open>x: t = e\<close>, the value optional) and
  \<open>Return value\<close> (the value optional), and \<open>TypeAlias name value\<close> of Python 3.12
  (\<^verbatim>\<open>type x = e\<close>, the type parameters left out); the definitions and imports by
  their names; and \<open>OtherStmt\<close> for every other statement, none of which has an
  attribute \<^verbatim>\<open>value\<close> (\<^verbatim>\<open>pass\<close>, \<^verbatim>\<open>for\<close>, \<^verbatim>\<open>while\<close>, \<^verbatim>\<open>with\<close>,
  \<^verbatim>\<open>try\<close>, \<^verbatim>\<open>raise\<close>, \<^verbatim>\<open>assert\<close>, \<^verbatim>\<open>del\<close>, \<^verbatim>\<open>global\<close>, ...).
\<close>

datatype stmt =
    If expr "stmt list" "stmt list"
  | Expr expr
  | Assign "expr list" expr
  | AugAssign expr expr
  | AnnAssign expr expr "expr option"
  | Return "expr option"
  | TypeAlias expr expr
  | FunctionDef string "stmt list"
  | ClassDef string "expr list" "stmt list"
  | Import "string list"
  | ImportFrom "string option" "string list"
  | OtherStmt

text \<open>
  \<^verbatim>\<open>
  def _get_func_name(self, func):
      func_name = ""
      if isinstance(func, ast.Name):
          return func.id
      elif isinstance(func, ast.Attribute):
          attr = ""
          attr += func.attr
          module = func.value
          while isinstance(module, ast.Attribute):
              attr = module.attr + "." + attr
              module = module.value
          if isinstance(module, ast.Name):
              try:
                  func_name = module.id + "." + attr
              except:
                  pass
              return func_name
          elif isinstance(module, ast.Call):
              try:
                  func_name = self._get_func_name(module.func) + "()." + attr
              except:
                  pass
              return func_name
          elif isinstance(module, ast.Subscript):
              try:
                  func_name = self._get_func_name(module.value)
                  if not func_name:
                      func_name = "[]." + attr
                  else:
                      func_name = func_name + "[]." + attr
              except:
                  pass
              return func_name
          else:
              return func_name
  \<close>
  The function falls off its end for any other \<open>func\<close> and returns \<^verbatim>\<open>None\<close>.
  \<open>get_func_name_module module attr\<close> is the \<^verbatim>\<open>while\<close> loop and what follows it.  In the
  call branch, \<^verbatim>\<open>None + "()."\<close> raises a \<^verbatim>\<open>TypeError\<close> that the \<^verbatim>\<open>except\<close>
  swallows, so \<open>func_name\<close> stays empty.
\<close>

fun get_func_name :: "expr \<Rightarrow> string option"
  and get_func_name_module :: "expr \<Rightarrow> string \<Rightarrow> string option"
where
  "get_func_name (Name ident) = Some ident"
| "get_func_name (Attribute val attr) = get_func_name_module val attr"
| "get_func_name (Call f args) = None"
| "get_func_name (Subscript v sl) = None"
| "get_func_name (Constant c) = None"
| "get_func_name (Compare l cs) = None"
| "get_func_name OtherExpr = None"
| "get_func_name_module (Attribute val a) attr = get_func_name_module val (a @ ''.'' @ attr)"
| "get_func_name_module (Name ident) attr = Some (ident @ ''.'' @ attr)"
| "get_func_name_module (Call f args) attr =
     (case get_func_name f of
        Some func_name \<Rightarrow> Some (func_name @ ''().'' @ attr)
      | None \<Rightarrow> Some [])"
| "get_func_name_module (Subscript v sl) attr =
     (case get_func_name v of
        None \<Rightarrow> Some (''[].'' @ attr)
      | Some func_name \<Rightarrow>
          (if func_name = [] then Some (''[].'' @ attr) else Some (func_name @ ''[].'' @ attr)))"
| "get_func_name_module (Constant c) attr = Some []"
| "get_func_name_module (Compare l cs) attr = Some []"
| "get_func_name_module OtherExpr attr = Some []"

section \<open>Main-entry detection (code_inspector.py, _ast_if_main)\<close>

text \<open>\<^verbatim>\<open>node.test.comparators[0].s\<close>: each attribute exists on one node shape only.\<close>

definition comparators_0_s :: "expr \<Rightarrow> py_error + py_const" where
  "comparators_0_s test =
     (case test of
        Compare l comparators \<Rightarrow>
          (case index comparators 0 of
             Inl e \<Rightarrow> Inl e
           | Inr c0 \<Rightarrow> (case c0 of Constant s \<Rightarrow> Inr s | _ \<Rightarrow> Inl AttributeError))
      | _ \<Rightarrow> Inl AttributeError)"

text \<open>
  \<^verbatim>\<open>i.value\<close> of a statement: \<^verbatim>\<open>None\<close> for a bare \<^verbatim>\<open>return\<close> and for an
  annotation without a value, \<^verbatim>\<open>AttributeError\<close> for a statement without the
  attribute.
\<close>

fun stmt_value :: "stmt \<Rightarrow> py_error + expr option" where
  "stmt_value (Expr v) = Inr (Some v)"
| "stmt_value (Assign targets v) = Inr (Some v)"
| "stmt_value (AugAssign target v) = Inr (Some v)"
| "stmt_value (AnnAssign target annotation v) = Inr v"
| "stmt_value (Return v) = Inr v"
| "stmt_value (TypeAlias n v) = Inr (Some v)"
| "stmt_value (If t b orelse) = Inl AttributeError"
| "stmt_value (FunctionDef n b) = Inl AttributeError"
| "stmt_value (ClassDef n bases b) = Inl AttributeError"
| "stmt_value (Import ns) = Inl AttributeError"
| "stmt_value (ImportFrom m ns) = Inl AttributeError"
| "stmt_value OtherStmt = Inl AttributeError"

text \<open>\<^verbatim>\<open>[i.value.func for i in node.body if isinstance(i.value, ast.Call)]\<close>\<close>

fun funcs_calls :: "stmt list \<Rightarrow> py_error + expr list" where
  "funcs_calls [] = Inr []"
| "funcs_calls (i # body) =
     (case stmt_value i of
        Inl e \<Rightarrow> Inl e
      | Inr v \<Rightarrow>
          (case funcs_calls body of
             Inl e \<Rightarrow> Inl e
           | Inr fs \<Rightarrow> (case v of Some (Call func args) \<Rightarrow> Inr (func # fs) | _ \<Rightarrow> Inr fs)))"

text \<open>
  \<^verbatim>\<open>
  def _ast_if_main(self):
      if_main_definitions = [node for node in self.tree.body if isinstance(node, ast.If)]
      if_main_flag = 0
      if_main_func = ""
      main_info = {}
      for node in if_main_definitions:
          try:
              if node.test.comparators[0].s == "__main__":
                  if_main_flag = 1
              funcs_calls = [i.value.func for i in node.body if isinstance(i.value, ast.Call)]
              func_name_id = [self._get_func_name(func) for func in funcs_calls]
              # Note: Assigning just the first name in the list as the main function.
              if func_name_id:
                  if_main_func = self.fileInfo["fileNameBase"] + "." + func_name_id[0]
                  break
          except:
              pass
      main_info["main_flag"] = if_main_flag
      main_info["main_function"] = if_main_func
      if if_main_flag:
          # classifying the type of a main: "test" or "script"
          if "unittest" in if_main_func or "test" in self.fileInfo["fileNameBase"]:
              main_info["type"] = "test"
          else:
              main_info["type"] = "script"
      return main_info
  \<close>
  \<open>if_main_loop\<close> is the \<^verbatim>\<open>for\<close> loop, with the two variables it assigns as its state.
  An exception anywhere in the \<^verbatim>\<open>try\<close> goes on with the next node and keeps what was
  assigned before it; \<^verbatim>\<open>"." + None\<close> is such an exception (\<^verbatim>\<open>TypeError\<close>).
\<close>

fun is_If :: "stmt \<Rightarrow> bool" where
  "is_If (If t b orelse) = True"
| "is_If _ = False"

fun if_main_loop :: "file_info \<Rightarrow> stmt list \<Rightarrow> int \<Rightarrow> string \<Rightarrow> int \<times> string" where
  "if_main_loop fileInfo [] if_main_flag if_main_func = (if_main_flag, if_main_func)"
| "if_main_loop fileInfo (If test body orelse # nodes) if_main_flag if_main_func =
     (case comparators_0_s test of
        Inl e \<Rightarrow> if_main_loop fileInfo nodes if_main_flag if_main_func
      | Inr s \<Rightarrow>
          (let if_main_flag = (if s = CStr ''__main__'' then 1 else if_main_flag) in
           case funcs_calls body of
             Inl e \<Rightarrow> if_main_loop fileInfo nodes if_main_flag if_main_func
           | Inr calls \<Rightarrow>
               (let func_name_id = map get_func_name calls in
                case func_name_id of
                  [] \<Rightarrow> if_main_loop fileInfo nodes if_main_flag if_main_func
                | None # _ \<Rightarrow> if_main_loop fileInfo nodes if_main_flag if_main_func
                | Some name0 # _ \<Rightarrow> (if_main_flag, fileNameBase fileInfo @ ''.'' @ name0))))"
| "if_main_loop fileInfo (node # nodes) if_main_flag if_main_func =
     if_main_loop fileInfo nodes if_main_flag if_main_func"

definition ast_if_main :: "file_info \<Rightarrow> stmt list \<Rightarrow> (string \<times> json) list" where
  "ast_if_main fileInfo tree_body =
     (let if_main_definitions = filter is_If tree_body;
          (if_main_flag, if_main_func) = if_main_loop fileInfo if_main_definitions 0 [];
          main_info = dict_set ''main_flag'' (JInt if_main_flag) [];
          main_info = dict_set ''main_function'' (JStr if_main_func) main_info
      in if if_main_flag \<noteq> 0 then
           (if str_in ''unittest'' if_main_func \<or> str_in ''test'' (fileNameBase fileInfo)
            then dict_set ''type'' (JStr ''test'') main_info
            else dict_set ''type'' (JStr ''script'') main_info)
         else main_info)"

text \<open>
  A top-level conditional that compares against the literal \<^verbatim>\<open>"__main__"\<close>: an
  \<^verbatim>\<open>if\<close> whose test is a comparison with that string among its operands.
\<close>

fun compares_with_main :: "stmt \<Rightarrow> bool" where
  "compares_with_main (If (Compare l comparators) body orelse) =
     (l = Constant (CStr ''__main__'') \<or> Constant (CStr ''__main__'') \<in> set comparators)"
| "compares_with_main _ = False"


section \<open>Contextual call-name resolution (code_inspector.py)\<close>

text \<open>
  The tables that resolution reads.  A function or method entry holds its call names
  (a raw name is \<^verbatim>\<open>None\<close> when \<^verbatim>\<open>_get_func_name\<close> returned nothing), the local
  variables assigned from a call or from \<^verbatim>\<open>self\<close>, and its nested definitions; a class
  entry holds its bases and its methods; a dependency holds module, symbol and alias
  (\<open>from_module\<close> is \<open>None\<close> for a plain import and for a module that is absent).
  The entries' other keys are never read by resolution and are left out; the key
  \<^verbatim>\<open>"functions"\<close> is the selector \<open>nested_functions\<close>.
\<close>

record dependency =
  from_module :: "string option"
  import :: string
  "alias" :: "string option"

datatype funct_info =
  FunctInfo (calls: "string option list")
            (store_vars_calls: "(string option \<times> string option) list")
            (nested_functions: "(string \<times> funct_info) list")

datatype class_info =
  ClassInfo (extend: "string list")
            (methods: "(string \<times> funct_info) list")

text \<open>\<^verbatim>\<open>k in d\<close> for a dictionary \<open>d\<close>, and the truth value of an optional string.\<close>

definition has_key :: "('k \<times> 'v) list \<Rightarrow> 'k \<Rightarrow> bool" where
  "has_key d k = (map_of d k \<noteq> None)"

definition str_truthy :: "string option \<Rightarrow> bool" where
  "str_truthy x = (case x of Some s \<Rightarrow> s \<noteq> [] | None \<Rightarrow> False)"

text \<open>
  \<^verbatim>\<open>
  def _dfs(self, extend, rest_call_name, renamed, classes_info, renamed_calls):
      for ext in extend:
          if ext in classes_info:
              if rest_call_name in classes_info[ext]["methods"]:
                  renamed_calls.append(self.fileInfo["fileNameBase"] + "." + ext + "." + rest_call_name)
                  renamed = 1
                  return renamed
              else:
                  extend = classes_info[ext]["extend"]
                  renamed = self._dfs(extend, rest_call_name, renamed, classes_info, renamed_calls)
                  if renamed:
                      break
          elif hasattr(ext, rest_call_name):
              renamed_calls.append(ext + "." + rest_call_name)
              renamed = 1
              return renamed
          else:
              extend = classes_info[ext]["extend"]
              renamed = self._dfs(extend, rest_call_name, renamed, classes_info, renamed_calls)
              if renamed:
                  break
      return renamed
  \<close>
  The list \<open>renamed_calls\<close> that the code appends to is returned with the flag.  A base
  \<open>ext\<close> is a string, so \<^verbatim>\<open>hasattr(ext, name)\<close> asks whether Python's strings have the
  attribute \<open>name\<close>: the parameter \<open>hasattr_str\<close>.  In the last branch \<open>ext\<close> is not a key
  of \<open>classes_info\<close> and the subscript raises \<^verbatim>\<open>KeyError\<close>.  The first argument is
  the number of nested calls the interpreter still allows; at \<open>0\<close> the call raises
  \<^verbatim>\<open>RecursionError\<close>.
\<close>

fun dfs ::
  "nat \<Rightarrow> file_info \<Rightarrow> (string \<Rightarrow> bool) \<Rightarrow> string list \<Rightarrow> string \<Rightarrow> int
     \<Rightarrow> (string \<times> class_info) list \<Rightarrow> string list \<Rightarrow> py_error + (int \<times> string list)"
where
  "dfs 0 fileInfo hasattr_str exts rest_call_name renamed classes_info renamed_calls =
     Inl RecursionError"
| "dfs (Suc depth) fileInfo hasattr_str [] rest_call_name renamed classes_info renamed_calls =
     Inr (renamed, renamed_calls)"
| "dfs (Suc depth) fileInfo hasattr_str (ext # exts) rest_call_name renamed classes_info renamed_calls =
     (case map_of classes_info ext of
        Some c \<Rightarrow>
          (if has_key (methods c) rest_call_name then
             Inr (1, renamed_calls @ [fileNameBase fileInfo @ ''.'' @ ext @ ''.'' @ rest_call_name])
           else
             (case dfs depth fileInfo hasattr_str (extend c) rest_call_name renamed classes_info
                     renamed_calls of
                Inl e \<Rightarrow> Inl e
              | Inr (renamed, renamed_calls) \<Rightarrow>
                  (if renamed \<noteq> 0 then Inr (renamed, renamed_calls)
                   else dfs (Suc depth) fileInfo hasattr_str exts rest_call_name renamed classes_info
                          renamed_calls)))
      | None \<Rightarrow>
          (if hasattr_str rest_call_name then
             Inr (1, renamed_calls @ [ext @ ''.'' @ rest_call_name])
           else Inl KeyError))"

text \<open>
  The first loop over the dependencies in \<^verbatim>\<open>_fill_call_name\<close>:
  \<^verbatim>\<open>
  for dep in self.depInfo:
      if dep["import"] == module_call_name:
          if dep["from_module"]:
              renamed = 1
              renamed_calls.append(dep["from_module"] + "." + call_name)
              break
          else:
              renamed = 1
              renamed_calls.append(call_name)
      elif dep["alias"]:
          if dep["alias"] == module_call_name:
              if dep["from_module"]:
                  renamed = 1
                  renamed_calls.append(dep["from_module"] + "." + dep["import"] + rest_call_name)
                  break
              else:
                  renamed = 1
                  renamed_calls.append(dep["import"] + rest_call_name)
                  break
  \<close>
\<close>

fun dep_loop_import ::
  "dependency list \<Rightarrow> string \<Rightarrow> string \<Rightarrow> string \<Rightarrow> int \<Rightarrow> string list \<Rightarrow> int \<times> string list"
where
  "dep_loop_import [] module_call_name call_name rest_call_name renamed renamed_calls =
     (renamed, renamed_calls)"
| "dep_loop_import (dep # deps) module_call_name call_name rest_call_name renamed renamed_calls =
     (if import dep = module_call_name then
        (if str_truthy (from_module dep)
         then (1, renamed_calls @ [the (from_module dep) @ ''.'' @ call_name])
         else dep_loop_import deps module_call_name call_name rest_call_name 1
                (renamed_calls @ [call_name]))
      else if str_truthy (alias dep) then
        (if alias dep = Some module_call_name then
           (if str_truthy (from_module dep)
            then (1, renamed_calls @ [the (from_module dep) @ ''.'' @ import dep @ rest_call_name])
            else (1, renamed_calls @ [import dep @ rest_call_name]))
         else dep_loop_import deps module_call_name call_name rest_call_name renamed renamed_calls)
      else dep_loop_import deps module_call_name call_name rest_call_name renamed renamed_calls)"

text \<open>
  The second loop, for names imported by \<^verbatim>\<open>from module import *\<close>:
  \<^verbatim>\<open>
  for dep in self.depInfo:
      if dep["import"] == call_name:
          if dep["from_module"]:
              renamed = 1
              renamed_calls.append(dep["from_module"] + "." + call_name)
              break
  \<close>
\<close>

fun dep_loop_star :: "dependency list \<Rightarrow> string \<Rightarrow> int \<Rightarrow> string list \<Rightarrow> int \<times> string list" where
  "dep_loop_star [] call_name renamed renamed_calls = (renamed, renamed_calls)"
| "dep_loop_star (dep # deps) call_name renamed renamed_calls =
     (if import dep = call_name \<and> str_truthy (from_module dep)
      then (1, renamed_calls @ [the (from_module dep) @ ''.'' @ call_name])
      else dep_loop_star deps call_name renamed renamed_calls)"

text \<open>
  The loop over the sibling definitions' nested functions:
  \<^verbatim>\<open>
  for inter_f in funct_def_info:
      if call_name in funct_def_info[inter_f]["functions"].keys():
          renamed = 1
          if class_name:
              renamed_calls.append(self.fileInfo["fileNameBase"] + "." + class_name + "." + inter_f + "." + call_name)
              break
          else:
              renamed_calls.append(self.fileInfo["fileNameBase"] + "." + inter_f + "." + call_name)
              break
  \<close>
\<close>

fun inter_f_loop ::
  "(string \<times> funct_info) list \<Rightarrow> file_info \<Rightarrow> string \<Rightarrow> string \<Rightarrow> int \<Rightarrow> string list
     \<Rightarrow> int \<times> string list"
where
  "inter_f_loop [] fileInfo class_name call_name renamed renamed_calls = (renamed, renamed_calls)"
| "inter_f_loop ((inter_f, info) # fs) fileInfo class_name call_name renamed renamed_calls =
     (if has_key (nested_functions info) call_name then
        (if class_name \<noteq> []
         then (1, renamed_calls @
                [fileNameBase fileInfo @ ''.'' @ class_name @ ''.'' @ inter_f @ ''.'' @ call_name])
         else (1, renamed_calls @ [fileNameBase fileInfo @ ''.'' @ inter_f @ ''.'' @ call_name]))
      else inter_f_loop fs fileInfo class_name call_name renamed renamed_calls)"


text \<open>
  \<^verbatim>\<open>
  def _fill_call_name(self, funct_def_info, classes_info, class_name="", extend=[], body=0):
      for funct in funct_def_info:
          renamed_calls = []
          f_store_vars = funct_def_info[funct]["store_vars_calls"]
          for call_name in funct_def_info[funct]["calls"]:
              renamed = 0
              module_call_name = call_name.split(".")[0]
              rest_call_name = call_name.split(".")[1:]
              rest_call_name = '.'.join(rest_call_name)
              for key, val in f_store_vars.items():
                  if module_call_name == key:
                      module_call_name = val
                      call_name = module_call_name + "." + rest_call_name
                      break
              if call_name in classes_info:
                  renamed_calls.append(self.fileInfo["fileNameBase"] + "." + call_name + ".__init__")
              elif "self" in module_call_name:
                  renamed_calls.append(self.fileInfo["fileNameBase"] + "." + class_name + "." + rest_call_name)
              elif "super()" in module_call_name and extend:
                  renamed = self._dfs(extend, rest_call_name, renamed, classes_info, renamed_calls)
                  if not renamed:
                      renamed_calls.append(call_name)
              else:
                  if rest_call_name:
                      rest_call_name = "." + rest_call_name
                  else:
                      rest_call_name = ""
                  (the two loops over self.depInfo)
                  if not renamed:
                      (the second loop)
                      if not renamed:
                          if call_name in funct_def_info.keys():
                              renamed = 1
                              renamed_calls.append(self.fileInfo["fileNameBase"] + "." + call_name)
                          if not renamed:
                              if not body:
                                  (the loop over the nested functions)
                              if not renamed:
                                  if module_call_name and rest_call_name and self.fileInfo["fileNameBase"] not in call_name:
                                      rest_call_name = rest_call_name.split(".")[1]
                                      if module_call_name in classes_info and rest_call_name in \
                                              classes_info[module_call_name]["methods"].keys():
                                          renamed = 1
                                          renamed_calls.append(self.fileInfo["fileNameBase"] + "." + call_name)
                                      elif module_call_name in classes_info:
                                          renamed = self._dfs(classes_info[module_call_name]["extend"], rest_call_name,
                                                              renamed, classes_info, renamed_calls)
                                          if renamed:
                                              renamed_calls.append(self.fileInfo["fileNameBase"] + "." + call_name)
                                      else:
                                          renamed = 1
                                          renamed_calls.append(call_name)
                                  if not renamed:
                                      if "super" != call_name:
                                          renamed_calls.append(call_name)
          funct_def_info[funct]["calls"] = renamed_calls
      return funct_def_info
  \<close>
  \<open>fill_call_other\<close> is the last \<^verbatim>\<open>else\<close> branch, \<open>fill_call_context\<close> the
  \<^verbatim>\<open>if\<close>/\<^verbatim>\<open>elif\<close> chain, \<open>fill_call\<close> one turn of the inner loop: each returns the
  extended \<open>renamed_calls\<close>, or the exception raised.  A call name that is \<^verbatim>\<open>None\<close>
  has no \<^verbatim>\<open>split\<close> (\<^verbatim>\<open>AttributeError\<close>), and a stored value that is \<^verbatim>\<open>None\<close>
  cannot be concatenated (\<^verbatim>\<open>TypeError\<close>).  The assignment to
  \<^verbatim>\<open>funct_def_info[funct]["calls"]\<close> changes no key that a later turn looks up, so the
  loops read the table they were given.
\<close>

definition fill_call_other ::
  "nat \<Rightarrow> file_info \<Rightarrow> dependency list \<Rightarrow> (string \<Rightarrow> bool) \<Rightarrow> (string \<times> funct_info) list
     \<Rightarrow> (string \<times> class_info) list \<Rightarrow> string \<Rightarrow> int \<Rightarrow> string \<Rightarrow> string \<Rightarrow> string
     \<Rightarrow> string list \<Rightarrow> py_error + string list"
where
  "fill_call_other limit fileInfo depInfo hasattr_str funct_def_info classes_info class_name body
       module_call_name call_name rest_call_name renamed_calls =
     (let rest_call_name = (if rest_call_name \<noteq> [] then ''.'' @ rest_call_name else []);
          (renamed, renamed_calls) =
             dep_loop_import depInfo module_call_name call_name rest_call_name 0 renamed_calls
      in if renamed \<noteq> 0 then Inr renamed_calls else
      let (renamed, renamed_calls) = dep_loop_star depInfo call_name renamed renamed_calls
      in if renamed \<noteq> 0 then Inr renamed_calls else
      let (renamed, renamed_calls) =
             (if has_key funct_def_info call_name
              then (1, renamed_calls @ [fileNameBase fileInfo @ ''.'' @ call_name])
              else (renamed, renamed_calls))
      in if renamed \<noteq> 0 then Inr renamed_calls else
      let (renamed, renamed_calls) =
             (if body = 0
              then inter_f_loop funct_def_info fileInfo class_name call_name renamed renamed_calls
              else (renamed, renamed_calls))
      in if renamed \<noteq> 0 then Inr renamed_calls else
      (case
         (if module_call_name \<noteq> [] \<and> rest_call_name \<noteq> []
               \<and> \<not> str_in (fileNameBase fileInfo) call_name
          then
            (case index (split CHR ''.'' rest_call_name) 1 of
               Inl e \<Rightarrow> Inl e
             | Inr rest_call_name \<Rightarrow>
                 (case map_of classes_info module_call_name of
                    Some c \<Rightarrow>
                      (if has_key (methods c) rest_call_name
                       then Inr (1, renamed_calls @ [fileNameBase fileInfo @ ''.'' @ call_name])
                       else
                         (case dfs limit fileInfo hasattr_str (extend c) rest_call_name renamed
                                 classes_info renamed_calls of
                            Inl e \<Rightarrow> Inl e
                          | Inr (renamed, renamed_calls) \<Rightarrow>
                              (if renamed \<noteq> 0
                               then Inr (renamed,
                                         renamed_calls @ [fileNameBase fileInfo @ ''.'' @ call_name])
                               else Inr (renamed, renamed_calls))))
                  | None \<Rightarrow> Inr (1, renamed_calls @ [call_name])))
          else Inr (renamed, renamed_calls))
       of
         Inl e \<Rightarrow> Inl e
       | Inr (renamed, renamed_calls) \<Rightarrow>
           (if renamed \<noteq> 0 then Inr renamed_calls
            else if call_name \<noteq> ''super'' then Inr (renamed_calls @ [call_name])
            else Inr renamed_calls)))"

definition fill_call_context ::
  "nat \<Rightarrow> file_info \<Rightarrow> dependency list \<Rightarrow> (string \<Rightarrow> bool) \<Rightarrow> (string \<times> funct_info) list
     \<Rightarrow> (string \<times> class_info) list \<Rightarrow> string \<Rightarrow> string list \<Rightarrow> int \<Rightarrow> string \<Rightarrow> string \<Rightarrow> string
     \<Rightarrow> string list \<Rightarrow> py_error + string list"
where
  "fill_call_context limit fileInfo depInfo hasattr_str funct_def_info classes_info class_name exts body
       module_call_name call_name rest_call_name renamed_calls =
     (if has_key classes_info call_name then
        Inr (renamed_calls @ [fileNameBase fileInfo @ ''.'' @ call_name @ ''.__init__''])
      else if str_in ''self'' module_call_name then
        Inr (renamed_calls @ [fileNameBase fileInfo @ ''.'' @ class_name @ ''.'' @ rest_call_name])
      else if str_in ''super()'' module_call_name \<and> exts \<noteq> [] then
        (case dfs limit fileInfo hasattr_str exts rest_call_name 0 classes_info renamed_calls of
           Inl e \<Rightarrow> Inl e
         | Inr (renamed, renamed_calls) \<Rightarrow>
             (if renamed = 0 then Inr (renamed_calls @ [call_name]) else Inr renamed_calls))
      else
        fill_call_other limit fileInfo depInfo hasattr_str funct_def_info classes_info class_name body
          module_call_name call_name rest_call_name renamed_calls)"

definition fill_call ::
  "nat \<Rightarrow> file_info \<Rightarrow> dependency list \<Rightarrow> (string \<Rightarrow> bool) \<Rightarrow> (string \<times> funct_info) list
     \<Rightarrow> (string \<times> class_info) list \<Rightarrow> string \<Rightarrow> string list \<Rightarrow> int
     \<Rightarrow> (string option \<times> string option) list \<Rightarrow> string list \<Rightarrow> string option
     \<Rightarrow> py_error + string list"
where
  "fill_call limit fileInfo depInfo hasattr_str funct_def_info classes_info class_name exts body
       f_store_vars renamed_calls call_name =
     (case call_name of
        None \<Rightarrow> Inl AttributeError
      | Some call_name \<Rightarrow>
          (case index (split CHR ''.'' call_name) 0 of
             Inl e \<Rightarrow> Inl e
           | Inr module_call_name \<Rightarrow>
               (let rest_call_name = join ''.'' (drop 1 (split CHR ''.'' call_name)) in
                case map_of f_store_vars (Some module_call_name) of
                  None \<Rightarrow>
                    fill_call_context limit fileInfo depInfo hasattr_str funct_def_info classes_info
                      class_name exts body module_call_name call_name rest_call_name renamed_calls
                | Some None \<Rightarrow> Inl TypeError
                | Some (Some val) \<Rightarrow>
                    fill_call_context limit fileInfo depInfo hasattr_str funct_def_info classes_info
                      class_name exts body val (val @ ''.'' @ rest_call_name) rest_call_name
                      renamed_calls)))"

fun fill_calls ::
  "nat \<Rightarrow> file_info \<Rightarrow> dependency list \<Rightarrow> (string \<Rightarrow> bool) \<Rightarrow> (string \<times> funct_info) list
     \<Rightarrow> (string \<times> class_info) list \<Rightarrow> string \<Rightarrow> string list \<Rightarrow> int
     \<Rightarrow> (string option \<times> string option) list \<Rightarrow> string option list \<Rightarrow> string list
     \<Rightarrow> py_error + string list"
where
  "fill_calls limit fileInfo depInfo hasattr_str funct_def_info classes_info class_name exts body
       f_store_vars [] renamed_calls = Inr renamed_calls"
| "fill_calls limit fileInfo depInfo hasattr_str funct_def_info classes_info class_name exts body
       f_store_vars (call_name # cs) renamed_calls =
     (case fill_call limit fileInfo depInfo hasattr_str funct_def_info classes_info class_name exts
             body f_store_vars renamed_calls call_name of
        Inl e \<Rightarrow> Inl e
      | Inr renamed_calls \<Rightarrow>
          fill_calls limit fileInfo depInfo hasattr_str funct_def_info classes_info class_name exts
            body f_store_vars cs renamed_calls)"

fun fill_functs ::
  "nat \<Rightarrow> file_info \<Rightarrow> dependency list \<Rightarrow> (string \<Rightarrow> bool) \<Rightarrow> (string \<times> funct_info) list
     \<Rightarrow> (string \<times> class_info) list \<Rightarrow> string \<Rightarrow> string list \<Rightarrow> int
     \<Rightarrow> (string \<times> funct_info) list \<Rightarrow> py_error + (string \<times> funct_info) list"
where
  "fill_functs limit fileInfo depInfo hasattr_str funct_def_info classes_info class_name exts body
       [] = Inr []"
| "fill_functs limit fileInfo depInfo hasattr_str funct_def_info classes_info class_name exts body
       ((funct, info) # fs) =
     (case fill_calls limit fileInfo depInfo hasattr_str funct_def_info classes_info class_name exts
             body (store_vars_calls info) (calls info) [] of
        Inl e \<Rightarrow> Inl e
      | Inr renamed_calls \<Rightarrow>
          (case fill_functs limit fileInfo depInfo hasattr_str funct_def_info classes_info class_name
                  exts body fs of
             Inl e \<Rightarrow> Inl e
           | Inr fs' \<Rightarrow>
               Inr ((funct, FunctInfo (map Some renamed_calls) (store_vars_calls info)
                                      (nested_functions info)) # fs')))"

definition fill_call_name ::
  "nat \<Rightarrow> file_info \<Rightarrow> dependency list \<Rightarrow> (string \<Rightarrow> bool) \<Rightarrow> (string \<times> funct_info) list
     \<Rightarrow> (string \<times> class_info) list \<Rightarrow> string \<Rightarrow> string list \<Rightarrow> int
     \<Rightarrow> py_error + (string \<times> funct_info) list"
where
  "fill_call_name limit fileInfo depInfo hasattr_str funct_def_info classes_info class_name exts body =
     fill_functs limit fileInfo depInfo hasattr_str funct_def_info classes_info class_name exts body
       funct_def_info"

section \<open>Module body (code_inspector.py, inspect_body)\<close>

text \<open>
  \<^verbatim>\<open>
  def inspect_body(self):
      body_nodes = []
      body_info = {"body": {}}
      for node in self.tree.body:
          if not isinstance(node, ast.ClassDef) and not isinstance(node, ast.FunctionDef) and \
             not isinstance(node, ast.Import) and not isinstance(node, ast.ImportFrom):
              body_nodes.append(node)
      body_assigns = [node for node in body_nodes if isinstance(node, ast.Assign)]
      body_expr = [node for node in body_nodes if isinstance(node, ast.Expr)]
      body_store_vars = {}
      body_calls = []
      for b_as in body_assigns:
          if isinstance(b_as.value, ast.Call):
              body_name = self._get_func_name(b_as.value.func)
              body_calls.append(body_name)
              for target in b_as.targets:
                  target_name = self._get_func_name(target)
                  body_store_vars[target_name] = body_name
      for b_ex in body_expr:
          if isinstance(b_ex.value, ast.Call):
              body_name = self._get_func_name(b_ex.value.func)
              body_calls.append(body_name)
      body_info["body"]["calls"] = body_calls
      body_info["body"]["store_vars_calls"] = body_store_vars
      body_info = self._fill_call_name(body_info, self.classesInfo, body=1)
      return body_info
  \<close>
  The entry of \<^verbatim>\<open>"body"\<close> has no nested definitions; with \<open>body = 1\<close> they are never
  looked up.
\<close>

fun is_body_node :: "stmt \<Rightarrow> bool" where
  "is_body_node (ClassDef n bases b) = False"
| "is_body_node (FunctionDef n b) = False"
| "is_body_node (Import ns) = False"
| "is_body_node (ImportFrom m ns) = False"
| "is_body_node _ = True"

fun is_Assign :: "stmt \<Rightarrow> bool" where
  "is_Assign (Assign targets v) = True"
| "is_Assign _ = False"

fun is_Expr :: "stmt \<Rightarrow> bool" where
  "is_Expr (Expr v) = True"
| "is_Expr _ = False"

fun body_targets_loop ::
  "expr list \<Rightarrow> string option \<Rightarrow> (string option \<times> string option) list
     \<Rightarrow> (string option \<times> string option) list"
where
  "body_targets_loop [] body_name body_store_vars = body_store_vars"
| "body_targets_loop (target # targets) body_name body_store_vars =
     body_targets_loop targets body_name (dict_set (get_func_name target) body_name body_store_vars)"

fun body_assigns_loop ::
  "stmt list \<Rightarrow> string option list \<Rightarrow> (string option \<times> string option) list
     \<Rightarrow> string option list \<times> (string option \<times> string option) list"
where
  "body_assigns_loop [] body_calls body_store_vars = (body_calls, body_store_vars)"
| "body_assigns_loop (Assign targets (Call func args) # body_assigns) body_calls body_store_vars =
     (let body_name = get_func_name func in
      body_assigns_loop body_assigns (body_calls @ [body_name])
        (body_targets_loop targets body_name body_store_vars))"
| "body_assigns_loop (b_as # body_assigns) body_calls body_store_vars =
     body_assigns_loop body_assigns body_calls body_store_vars"

fun body_expr_loop :: "stmt list \<Rightarrow> string option list \<Rightarrow> string option list" where
  "body_expr_loop [] body_calls = body_calls"
| "body_expr_loop (Expr (Call func args) # body_expr) body_calls =
     body_expr_loop body_expr (body_calls @ [get_func_name func])"
| "body_expr_loop (b_ex # body_expr) body_calls = body_expr_loop body_expr body_calls"

definition inspect_body ::
  "nat \<Rightarrow> file_info \<Rightarrow> dependency list \<Rightarrow> (string \<Rightarrow> bool) \<Rightarrow> (string \<times> class_info) list
     \<Rightarrow> stmt list \<Rightarrow> py_error + (string \<times> funct_info) list"
where
  "inspect_body limit fileInfo depInfo hasattr_str classesInfo tree_body =
     (let body_nodes = filter is_body_node tree_body;
          body_assigns = filter is_Assign body_nodes;
          body_expr = filter is_Expr body_nodes;
          (body_calls, body_store_vars) = body_assigns_loop body_assigns [] [];
          body_calls = body_expr_loop body_expr body_calls;
          body_info = [(''body'', FunctInfo body_calls body_store_vars [])]
      in fill_call_name limit fileInfo depInfo hasattr_str body_info classesInfo [] [] 1)"

text \<open>
  \<open>search_fails classes_info meth exts\<close>: the depth-first search of the base list \<open>exts\<close>
  for the method \<open>meth\<close> ends without a match and without an exception.  Every base
  is a class of the file that does not declare the method, and the search of its own bases
  fails in the same way.
\<close>

inductive search_fails :: "(string \<times> class_info) list \<Rightarrow> string \<Rightarrow> string list \<Rightarrow> bool"
  for classes_info :: "(string \<times> class_info) list" and meth :: string
where
  search_fails_Nil: "search_fails classes_info meth []"
| search_fails_Cons:
    "map_of classes_info ext = Some c \<Longrightarrow> \<not> has_key (methods c) meth
       \<Longrightarrow> search_fails classes_info meth (extend c)
       \<Longrightarrow> search_fails classes_info meth exts
       \<Longrightarrow> search_fails classes_info meth (ext # exts)"

text \<open>
  Attributes of Python's strings, for \<open>hasattr_str\<close> in examples: of the names asked
  for there, these are the ones a string has.
\<close>

definition hasattr_str_py :: "string \<Rightarrow> bool" where
  "hasattr_str_py name =
     (name \<in> set [''__init__'', ''__str__'', ''__repr__'', ''__eq__'', ''__len__'', ''join'', ''split'',
                   ''format'', ''strip'', ''lower'', ''upper'', ''encode'', ''count'', ''index'',
                   ''find'', ''replace''])"


section \<open>Pruning on the object store\<close>

text \<open>
  Python's dictionaries and lists are objects that are shared by reference and changed in
  place.  The store is the list of the objects allocated so far; an object's address is
  its position, and a new object goes to the end.  A value is a leaf or the address of
  an object.
\<close>

datatype pyval = VNone | VBool bool | VInt int | VStr string | VRef nat

datatype pyobj = ODict "(string \<times> pyval) list" | OList "pyval list"

type_synonym store = "pyobj list"

definition deref :: "store \<Rightarrow> nat \<Rightarrow> pyobj option" where
  "deref h a = (if a < length h then Some (h ! a) else None)"

definition alloc :: "store \<Rightarrow> pyobj \<Rightarrow> store \<times> nat" where
  "alloc h obj = (h @ [obj], length h)"

text \<open>\<^verbatim>\<open>d[k] = v\<close> for the dictionary at address \<open>d\<close>: the one write that the code makes.\<close>

definition setitem :: "store \<Rightarrow> nat \<Rightarrow> string \<Rightarrow> pyval \<Rightarrow> store" where
  "setitem h d k v =
     (case deref h d of
        Some (ODict items) \<Rightarrow> h[d := ODict (dict_set k v items)]
      | _ \<Rightarrow> h)"

fun truthy_at :: "store \<Rightarrow> pyval \<Rightarrow> bool" where
  "truthy_at h VNone = False"
| "truthy_at h (VBool b) = b"
| "truthy_at h (VInt n) = (n \<noteq> 0)"
| "truthy_at h (VStr s) = (s \<noteq> [])"
| "truthy_at h (VRef a) =
     (case deref h a of
        Some (ODict items) \<Rightarrow> items \<noteq> []
      | Some (OList xs) \<Rightarrow> xs \<noteq> []
      | None \<Rightarrow> False)"

text \<open>
  \<^verbatim>\<open>prune_json\<close> again, statement by statement, on the store: \<^verbatim>\<open>final_dict = {}\<close>
  allocates, \<^verbatim>\<open>final_dict[a] = ...\<close> writes to that new object, and
  \<^verbatim>\<open>list(filter(None, ...))\<close> allocates the list it returns.  A value that is not a
  dictionary is returned as it is, the same reference.  The first argument is the number
  of nested calls that the interpreter still allows (\<^verbatim>\<open>RecursionError\<close> at \<open>0\<close>),
  which also ends the recursion on a store whose objects contain themselves.
\<close>

function prune_json_store :: "nat \<Rightarrow> store \<Rightarrow> pyval \<Rightarrow> store \<times> (py_error + pyval)"
  and prune_items_store ::
    "nat \<Rightarrow> store \<Rightarrow> nat \<Rightarrow> (string \<times> pyval) list \<Rightarrow> store \<times> (py_error + pyval)"
  and prune_elems_store :: "nat \<Rightarrow> store \<Rightarrow> pyval list \<Rightarrow> store \<times> (py_error + pyval list)"
where
  "prune_json_store 0 h json_dict = (h, Inl RecursionError)"
| "prune_json_store (Suc limit) h json_dict =
     (let (h, final_dict) = alloc h (ODict []) in
      case json_dict of
        VRef r \<Rightarrow>
          (case deref h r of
             Some (ODict items) \<Rightarrow> prune_items_store limit h final_dict items
           | _ \<Rightarrow> (h, Inr json_dict))
      | _ \<Rightarrow> (h, Inr json_dict))"
| "prune_items_store limit h final_dict [] = (h, Inr (VRef final_dict))"
| "prune_items_store limit h final_dict ((a, b) # rest) =
     (if truthy_at h b then
        (case b of
           VRef r \<Rightarrow>
             (case deref h r of
                Some (ODict d) \<Rightarrow>
                  (case prune_json_store limit h b of
                     (h, Inl e) \<Rightarrow> (h, Inl e)
                   | (h, Inr aux_dict) \<Rightarrow>
                       (if truthy_at h aux_dict
                        then prune_items_store limit (setitem h final_dict a aux_dict) final_dict rest
                        else prune_items_store limit h final_dict rest))
              | Some (OList xs) \<Rightarrow>
                  (case prune_elems_store limit h xs of
                     (h, Inl e) \<Rightarrow> (h, Inl e)
                   | (h, Inr ys) \<Rightarrow>
                       (let aux_list = filter (truthy_at h) ys in
                        if length aux_list > 0 then
                          (let (h, l) = alloc h (OList aux_list) in
                           prune_items_store limit (setitem h final_dict a (VRef l)) final_dict rest)
                        else prune_items_store limit h final_dict rest))
              | None \<Rightarrow> prune_items_store limit (setitem h final_dict a b) final_dict rest)
         | _ \<Rightarrow> prune_items_store limit (setitem h final_dict a b) final_dict rest)
      else prune_items_store limit h final_dict rest)"
| "prune_elems_store limit h [] = (h, Inr [])"
| "prune_elems_store limit h (i # b) =
     (case prune_json_store limit h i of
        (h, Inl e) \<Rightarrow> (h, Inl e)
      | (h, Inr v) \<Rightarrow>
          (case prune_elems_store limit h b of
             (h, Inl e) \<Rightarrow> (h, Inl e)
           | (h, Inr vs) \<Rightarrow> (h, Inr (v # vs))))"
  by pat_completeness auto
termination
  by (relation "measures
        [\<lambda>x. case x of
             Inl (limit, h, v) \<Rightarrow> 3 * limit
           | Inr (Inl (limit, h, f, items)) \<Rightarrow> 3 * limit + 2
           | Inr (Inr (limit, h, xs)) \<Rightarrow> 3 * limit + 1,
         \<lambda>x. case x of
             Inl (limit, h, v) \<Rightarrow> 0
           | Inr (Inl (limit, h, f, items)) \<Rightarrow> length items
           | Inr (Inr (limit, h, xs)) \<Rightarrow> length xs]") auto

text \<open>
  \<^verbatim>\<open>
  def file_json(self):
      file_dict = {}
      file_dict["file"] = self.fileInfo
      file_dict["dependencies"] = self.depInfo
      file_dict["classes"] = self.classesInfo
      file_dict["functions"] = self.funcsInfo
      file_dict["body"] = self.bodyInfo["body"]
      file_dict["controlflow"] = self.controlFlowInfo
      file_dict["main_info"] = self._ast_if_main()
      json_file = self.out_json_path + "/" + self.fileInfo["fileNameBase"] + ".json"
      with open(json_file, 'w') as outfile:
          json.dump(prune_json(file_dict), outfile)
      return [file_dict, json_file]
  \<close>
  The seven parts are values in the store.  The result is the new store, the address of
  \<open>file_dict\<close> (the report that the caller keeps) and the value handed to
  \<^verbatim>\<open>json.dump\<close>.
\<close>

definition file_json_store ::
  "nat \<Rightarrow> store \<Rightarrow> pyval \<Rightarrow> pyval \<Rightarrow> pyval \<Rightarrow> pyval \<Rightarrow> pyval \<Rightarrow> pyval \<Rightarrow> pyval
     \<Rightarrow> store \<times> nat \<times> (py_error + pyval)"
where
  "file_json_store limit h fileInfo depInfo classesInfo funcsInfo bodyInfo_body controlFlowInfo
       main_info =
     (let (h, file_dict) = alloc h (ODict []);
          h = setitem h file_dict ''file'' fileInfo;
          h = setitem h file_dict ''dependencies'' depInfo;
          h = setitem h file_dict ''classes'' classesInfo;
          h = setitem h file_dict ''functions'' funcsInfo;
          h = setitem h file_dict ''body'' bodyInfo_body;
          h = setitem h file_dict ''controlflow'' controlFlowInfo;
          h = setitem h file_dict ''main_info'' main_info;
          (h', dumped) = prune_json_store limit h (VRef file_dict)
      in (h', file_dict, dumped))"

text \<open>
  The tree that a value stands for in a store; \<open>None\<close> when the value is nested deeper
  than the first argument or refers to no object.
\<close>

fun read_json :: "nat \<Rightarrow> store \<Rightarrow> pyval \<Rightarrow> json option"
  and read_items :: "nat \<Rightarrow> store \<Rightarrow> (string \<times> pyval) list \<Rightarrow> (string \<times> json) list option"
  and read_elems :: "nat \<Rightarrow> store \<Rightarrow> pyval list \<Rightarrow> json list option"
where
  "read_json 0 h v = None"
| "read_json (Suc n) h VNone = Some JNull"
| "read_json (Suc n) h (VBool b) = Some (JBool b)"
| "read_json (Suc n) h (VInt i) = Some (JInt i)"
| "read_json (Suc n) h (VStr s) = Some (JStr s)"
| "read_json (Suc n) h (VRef a) =
     (case deref h a of
        None \<Rightarrow> None
      | Some (ODict items) \<Rightarrow> map_option JDict (read_items n h items)
      | Some (OList xs) \<Rightarrow> map_option JList (read_elems n h xs))"
| "read_items n h [] = Some []"
| "read_items n h ((k, v) # rest) =
     (case read_json n h v of
        None \<Rightarrow> None
      | Some t \<Rightarrow> map_option (\<lambda>ts. (k, t) # ts) (read_items n h rest))"
| "read_elems n h [] = Some []"
| "read_elems n h (v # rest) =
     (case read_json n h v of
        None \<Rightarrow> None
      | Some t \<Rightarrow> map_option (\<lambda>ts. t # ts) (read_elems n h rest))"

text \<open>
  An example: the store after the inspection of a file \<^verbatim>\<open>a.py\<close> that has no
  docstring, no imports, no classes, no functions, no calls and no main block.  The
  objects are, in this order, the file information with its \<^verbatim>\<open>doc\<close> and the empty
  \<^verbatim>\<open>full\<close> of that, the dependencies, the classes, the functions, the body with its
  calls, the control flow and the main information.
\<close>

definition example_store :: store where
  "example_store =
     [ODict [(''fileNameBase'', VStr ''a''), (''doc'', VRef 1)],
      ODict [(''full'', VRef 2)],
      ODict [],
      OList [],
      ODict [],
      ODict [],
      ODict [(''calls'', VRef 7)],
      OList [],
      ODict [(''cfg'', VStr ''a.txt''), (''png'', VStr ''None'')],
      ODict [(''main_flag'', VInt 0), (''main_function'', VStr [])]]"

definition example_file_json :: "store \<times> nat \<times> (py_error + pyval)" where
  "example_file_json =
     file_json_store 100 example_store (VRef 0) (VRef 3) (VRef 4) (VRef 5) (VRef 6) (VRef 8) (VRef 9)"


section \<open>Properties of pruning\<close>

lemma truthy_norm_value: "norm_value v \<Longrightarrow> truthy v"
  by (cases v) auto

lemma keys_dict_set: "fst ` set (dict_set k v d) = insert k (fst ` set d)"
  by (induction d) auto

lemma norm_items_dict_set:
  "norm_items acc \<Longrightarrow> norm_value v \<Longrightarrow> norm_items (dict_set k v acc)"
  by (induction acc) (force simp: keys_dict_set)+

lemma dict_set_fresh: "k \<notin> fst ` set acc \<Longrightarrow> dict_set k v acc = acc @ [(k, v)]"
  by (induction acc) auto

text \<open>What \<open>prune_items\<close> builds is in normal form, whatever the input.\<close>

lemma prune_norm:
  "(\<forall>d. t = JDict d \<longrightarrow> norm_items (prune_items d []))"
  "norm_items acc \<longrightarrow> norm_items (prune_items d' acc)"
  "norm_elems (filter truthy (prune_elems xs))"
proof (induction t and d' acc and xs rule: prune_json_prune_items_prune_elems.induct)
  case (8 a b rest final_dict)
  show ?case
  proof (cases b)
    case (JDict d)
    with 8 show ?thesis by (auto simp: norm_items_dict_set Let_def)
  next
    case (JList ys)
    with 8 show ?thesis by (auto simp: norm_items_dict_set Let_def)
  qed (use 8 in \<open>auto simp: norm_items_dict_set\<close>)
next
  case (10 i b)
  then show ?case by (cases i) auto
qed auto

lemma norm_prune_items: "norm_items (prune_items d [])"
  using prune_norm(2)[of "[]" d] by simp

text \<open>Pruning changes nothing in a normal form.\<close>

lemma prune_fix:
  "(\<forall>d. t = JDict d \<longrightarrow> norm_items d \<longrightarrow> prune_json t = t)"
  "norm_items d' \<longrightarrow> fst ` set d' \<inter> fst ` set acc = {} \<longrightarrow> prune_items d' acc = acc @ d'"
  "norm_elems xs \<longrightarrow> filter truthy (prune_elems xs) = xs"
proof (induction t and d' acc and xs rule: prune_json_prune_items_prune_elems.induct)
  case (8 a b rest final_dict)
  show ?case
  proof (cases b)
    case (JDict d)
    show ?thesis
    proof (intro impI)
      assume n: "norm_items ((a, b) # rest)"
        and dj: "fst ` set ((a, b) # rest) \<inter> fst ` set final_dict = {}"
      from n JDict have nd: "norm_items d" and ne: "d \<noteq> []" by auto
      have tb: "truthy b" using JDict ne by simp
      have fx: "prune_json (JDict d) = JDict d"
        using "8.IH"(8)[OF tb JDict] nd by simp
      have tr: "truthy (prune_json (JDict d))" using fx ne by simp
      have fresh: "a \<notin> fst ` set final_dict" using dj by auto
      have dj': "fst ` set rest \<inter> fst ` set (dict_set a (prune_json (JDict d)) final_dict) = {}"
        using n dj by (auto simp: keys_dict_set)
      have "prune_items rest (dict_set a (prune_json (JDict d)) final_dict)
              = dict_set a (prune_json (JDict d)) final_dict @ rest"
        using "8.IH"(9)[OF tb JDict refl tr] n dj' by simp
      then show "prune_items ((a, b) # rest) final_dict = final_dict @ (a, b) # rest"
        using tb tr JDict fx fresh by (simp add: dict_set_fresh)
    qed
  next
    case (JList ys)
    show ?thesis
    proof (intro impI)
      assume n: "norm_items ((a, b) # rest)"
        and dj: "fst ` set ((a, b) # rest) \<inter> fst ` set final_dict = {}"
      from n JList have nd: "norm_elems ys" and ne: "ys \<noteq> []" by auto
      have tb: "truthy b" using JList ne by simp
      have fx: "filter truthy (prune_elems ys) = ys"
        using "8.IH"(5)[OF tb JList] nd by simp
      have len: "0 < length (filter truthy (prune_elems ys))" using fx ne by simp
      have fresh: "a \<notin> fst ` set final_dict" using dj by auto
      have dj': "fst ` set rest
                   \<inter> fst ` set (dict_set a (JList (filter truthy (prune_elems ys))) final_dict) = {}"
        using n dj by (auto simp: keys_dict_set)
      have "prune_items rest (dict_set a (JList (filter truthy (prune_elems ys))) final_dict)
              = dict_set a (JList (filter truthy (prune_elems ys))) final_dict @ rest"
        using "8.IH"(6)[OF tb JList refl len] n dj' by simp
      then show "prune_items ((a, b) # rest) final_dict = final_dict @ (a, b) # rest"
        using tb len JList fx fresh by (simp add: dict_set_fresh)
    qed
  qed (use 8 in \<open>auto simp: dict_set_fresh keys_dict_set\<close>)
next
  case (10 i b)
  then show ?case by (cases i) auto
qed auto

lemma norm_pruned:
  "norm_value v \<longrightarrow> pruned_value v"
  "norm_items d \<longrightarrow> pruned_items d"
  "norm_elems xs \<longrightarrow> pruned_elems xs"
  by (induction v and d and xs rule: norm_value_norm_items_norm_elems.induct)
     (auto split: json.splits)

lemma norm_keys_truthy:
  "norm_value v \<longrightarrow> keys_truthy_value v"
  "norm_items d \<longrightarrow> keys_truthy_items d"
  "norm_elems xs \<longrightarrow> keys_truthy_elems xs"
  by (induction v and d and xs rule: norm_value_norm_items_norm_elems.induct)
     (auto split: json.splits simp: truthy_norm_value)

text \<open>
  Claim C5, as stated: no empty mapping, empty sequence or falsy leaf remains anywhere in
  the result of \<open>prune_json\<close>.  It fails: a sequence that is an element of a sequence is
  kept as it is, with the empty mapping, the empty sequence and the \<open>0\<close> inside it.
\<close>

theorem prune_json_keeps_nested_empties:
  "has_empty (prune_json (JDict [(''a'', JList [JList [JDict [], JList [], JInt 0]])]))"
  by simp

text \<open>
  Claim C5, amended: applied to a mapping, \<open>prune_json\<close> returns a mapping in which
  nothing empty remains at the positions it visits: every value is truthy, every mapping
  value is pruned in the same way, and the elements of every sequence value are truthy,
  those that are mappings being pruned in the same way.  A sequence, at the top or as an
  element of a sequence, is returned as it is.
\<close>

theorem prune_json_removes_visited_empties:
  "(\<exists>d'. prune_json (JDict d) = JDict d' \<and> pruned_items d')
     \<and> prune_json (JList xs) = JList xs
     \<and> prune_elems [JList xs] = [JList xs]"
  using norm_prune_items[of d] norm_pruned(2) by simp

theorem prune_json_removes_visited_empties_witness:
  "(\<exists>d'. prune_json (JDict [(''a'', JStr []), (''b'', JList [JDict [(''c'', JInt 0)], JInt 1]),
                              (''d'', JDict [(''e'', JList [])])]) = JDict d'
          \<and> pruned_items d')
     \<and> prune_json (JList [JInt 0]) = JList [JInt 0]
     \<and> prune_elems [JList [JInt 0]] = [JList [JInt 0]]"
  using prune_json_removes_visited_empties
    [of "[(''a'', JStr []), (''b'', JList [JDict [(''c'', JInt 0)], JInt 1]),
          (''d'', JDict [(''e'', JList [])])]" "[JInt 0]"]
  by simp

text \<open>
  Claim C6, as stated: \<open>prune_json\<close> is idempotent, and in its result every key of every
  mapping maps to a truthy value.  The second half fails for a mapping inside a sequence
  that is an element of a sequence.
\<close>

theorem prune_json_keeps_nested_falsy_key:
  "\<not> all_keys_truthy (prune_json (JDict [(''a'', JList [JList [JDict [(''x'', JInt 0)]]])]))"
  by simp

text \<open>
  Claim C6, amended: \<open>prune_json\<close> is idempotent on every tree, and in the mapping it
  returns for a mapping every key maps to a truthy value, in that mapping and in every
  mapping it visits (the mapping values, and the mappings that are elements of a sequence
  value, recursively).
\<close>

theorem prune_json_idempotent:
  "prune_json (prune_json t) = prune_json t
     \<and> (\<exists>d'. prune_json (JDict d) = JDict d' \<and> keys_truthy_items d')"
proof
  show "prune_json (prune_json t) = prune_json t"
  proof (cases t)
    case (JDict d0)
    then show ?thesis
      using prune_fix(1)[of "JDict (prune_items d0 [])"] norm_prune_items[of d0] by simp
  qed auto
  show "\<exists>d'. prune_json (JDict d) = JDict d' \<and> keys_truthy_items d'"
    using norm_prune_items[of d] norm_keys_truthy(2) by simp
qed

theorem prune_json_idempotent_witness:
  "prune_json (prune_json (JDict [(''a'', JDict [(''b'', JNull)]), (''c'', JList [JStr ''x'', JBool False])]))
     = prune_json (JDict [(''a'', JDict [(''b'', JNull)]), (''c'', JList [JStr ''x'', JBool False])])
   \<and> (\<exists>d'. prune_json (JDict [(''a'', JDict [(''b'', JNull)]), (''c'', JList [JStr ''x'', JBool False])])
              = JDict d' \<and> keys_truthy_items d')"
  using prune_json_idempotent
    [of "JDict [(''a'', JDict [(''b'', JNull)]), (''c'', JList [JStr ''x'', JBool False])]"
        "[(''a'', JDict [(''b'', JNull)]), (''c'', JList [JStr ''x'', JBool False])]"]
  by simp


section \<open>Properties of the dominant-type reduction\<close>




text \<open>The four outcomes on the records that the classifier produces.\<close>

lemma extract_software_type_examples:
  "extract_software_type
     [\<lparr>type = ''script'', run = ''python /r/a.py'', has_structure = ''main''\<rparr>,
      \<lparr>type = ''package'', run = ''pip install r'', has_structure = ''setup''\<rparr>] = ''package''"
  "extract_software_type
     [\<lparr>type = ''script without main'', run = ''/r/a.py'', has_structure = ''without_body''\<rparr>] = ''script''"
  "extract_software_type
     [\<lparr>type = ''test'', run = ''python /r/t.py'', has_structure = ''main''\<rparr>] = ''not found''"
  "extract_software_type ([] :: soft_info list) = ''not found''"
  by (simp_all add: extract_software_type_def)


section \<open>Properties of the file-level metadata\<close>

lemma split_eq:
  "split c xs = takeWhile (\<lambda>x. x \<noteq> c) xs #
     (if c \<in> set xs then split c (drop 1 (dropWhile (\<lambda>x. x \<noteq> c) xs)) else [])"
  by (induction xs) (auto split: list.splits)

lemma split_index_0: "index (split c xs) 0 = Inr (takeWhile (\<lambda>x. x \<noteq> c) xs)"
  by (subst split_eq) (simp add: index_def)

lemma split_index_1:
  assumes "c \<in> set xs"
  shows "index (split c xs) (Suc 0) =
           Inr (takeWhile (\<lambda>x. x \<noteq> c) (drop 1 (dropWhile (\<lambda>x. x \<noteq> c) xs)))"
proof -
  have "split c xs = takeWhile (\<lambda>x. x \<noteq> c) xs # split c (drop 1 (dropWhile (\<lambda>x. x \<noteq> c) xs))"
    using assms by (subst split_eq) simp
  moreover obtain ws where "split c (drop 1 (dropWhile (\<lambda>x. x \<noteq> c) xs)) =
      takeWhile (\<lambda>x. x \<noteq> c) (drop 1 (dropWhile (\<lambda>x. x \<noteq> c) xs)) # ws"
    using split_eq by blast
  ultimately show ?thesis by (simp add: index_def)
qed

lemma split_index_1_none: "c \<notin> set xs \<Longrightarrow> index (split c xs) (Suc 0) = Inl IndexError"
  by (subst split_eq) (simp add: index_def)

lemma isabs_normpath: "isabs p \<Longrightarrow> isabs (normpath p)"
  by (cases p) (auto simp: isabs_def normpath_def Let_def numeral_2_eq_2)

lemma isabs_path_join: "isabs a \<Longrightarrow> isabs (path_join a b)"
  by (cases a) (auto simp: isabs_def path_join_def)

lemma isabs_abspath: "isabs cwd \<Longrightarrow> isabs (abspath cwd p)"
  by (simp add: abspath_def isabs_normpath isabs_path_join)

text \<open>
  Claim C2, as stated: the extension is the part of the file name after its first dot.
  It fails for a name with two dots: the extension recorded for \<^verbatim>\<open>a.test.py\<close> is
  \<^verbatim>\<open>test\<close>, not \<^verbatim>\<open>test.py\<close>.
\<close>

theorem inspect_file_extension_two_dots:
  "map_sum id extension
     (inspect_file ''/home/u'' ''src/a.test.py'' None
        \<lparr>long_description = None, short_description = None\<rparr>) = Inr ''test''
   \<and> after_first_dot (basename ''src/a.test.py'') = ''test.py''"
  by (simp add: inspect_file_def basename_def after_first_dot_def index_def)

text \<open>
  Claim C2, amended: for a file whose name contains a dot, the report's path is absolute
  (the working directory being absolute), its base name is the part of the file name
  before the first dot, and its extension is the part between the first dot and the
  second, which is the whole part after the first dot when the name has one dot only.
\<close>

theorem inspect_file_extension:
  assumes "CHR ''.'' \<in> set (basename self_path)" and "isabs cwd"
  shows "\<exists>fi. inspect_file cwd self_path ds_m docstring = Inr fi
           \<and> path fi = abspath cwd self_path \<and> isabs (path fi)
           \<and> fileNameBase fi = takeWhile (\<lambda>c. c \<noteq> CHR ''.'') (basename self_path)
           \<and> extension fi = takeWhile (\<lambda>c. c \<noteq> CHR ''.'') (after_first_dot (basename self_path))
           \<and> (CHR ''.'' \<notin> set (after_first_dot (basename self_path))
                \<longrightarrow> extension fi = after_first_dot (basename self_path))"
  using assms
  by (auto simp: inspect_file_def split_index_0 split_index_1 after_first_dot_def isabs_abspath)

theorem inspect_file_extension_witness:
  "CHR ''.'' \<in> set (basename ''pkg/mod.py'') \<and> isabs ''/home/u''
   \<and> map_sum id extension
        (inspect_file ''/home/u'' ''pkg/mod.py'' (Some ''Doc.'')
           \<lparr>long_description = None, short_description = Some ''Doc.''\<rparr>) = Inr ''py''
   \<and> map_sum id path
        (inspect_file ''/home/u'' ''pkg/mod.py'' (Some ''Doc.'')
           \<lparr>long_description = None, short_description = Some ''Doc.''\<rparr>) = Inr ''/home/u/pkg/mod.py''
   \<and> after_first_dot (basename ''pkg/mod.py'') = ''py''"
proof -
  have d: "CHR ''.'' \<in> set (basename ''pkg/mod.py'')" by (simp add: basename_def)
  have a: "isabs ''/home/u''" by (simp add: isabs_def)
  have e: "after_first_dot (basename ''pkg/mod.py'') = ''py''"
    by (simp add: basename_def after_first_dot_def)
  have p: "abspath ''/home/u'' ''pkg/mod.py'' = ''/home/u/pkg/mod.py''"
    by (simp add: abspath_def isabs_def path_join_def normpath_def suffix_to_prefix Let_def)
  obtain fi where fi: "inspect_file ''/home/u'' ''pkg/mod.py'' (Some ''Doc.'')
           \<lparr>long_description = None, short_description = Some ''Doc.''\<rparr> = Inr fi"
    and x: "extension fi = takeWhile (\<lambda>c. c \<noteq> CHR ''.'') (after_first_dot (basename ''pkg/mod.py''))"
    and y: "path fi = abspath ''/home/u'' ''pkg/mod.py''"
    using inspect_file_extension[OF d a] by blast
  show ?thesis using d a e p fi x y by simp
qed

text \<open>A file name without a dot has no second part: the inspector raises.\<close>

lemma inspect_file_no_dot:
  "CHR ''.'' \<notin> set (basename self_path) \<Longrightarrow> inspect_file cwd self_path ds_m docstring = Inl IndexError"
  by (simp add: inspect_file_def split_index_0 split_index_1_none)


section \<open>Properties of main-entry detection\<close>

text \<open>
  Claim C3, as stated: with \<open>main_flag = 1\<close> the type is \<open>test\<close> exactly when \<open>test\<close>
  occurs in the main function's name or in the file's base name.  It fails: the code
  looks for \<open>unittest\<close> in the main function's name, so a file \<^verbatim>\<open>app.py\<close> whose main
  block calls \<^verbatim>\<open>run_tests()\<close> is a script.
\<close>

theorem ast_if_main_test_in_function_name:
  "ast_if_main \<lparr>path = ''/r/app.py'', fileNameBase = ''app'', extension = ''py'', doc = JDict []\<rparr>
     [If (Compare (Name ''__name__'') [Constant (CStr ''__main__'')])
         [Expr (Call (Name ''run_tests'') [])] []]
     = [(''main_flag'', JInt 1), (''main_function'', JStr ''app.run_tests''), (''type'', JStr ''script'')]
   \<and> str_in ''test'' ''app.run_tests''"
  by (simp add: ast_if_main_def comparators_0_s_def index_def)

text \<open>
  Claim C3, amended: with \<open>main_flag = 1\<close> the type is \<open>test\<close> exactly when \<open>unittest\<close>
  occurs in the recorded main function or \<open>test\<close> occurs in the file's base name, and
  \<open>script\<close> otherwise.
\<close>

theorem ast_if_main_type:
  assumes "map_of (ast_if_main fileInfo tree_body) ''main_flag'' = Some (JInt 1)"
  shows "\<exists>f. map_of (ast_if_main fileInfo tree_body) ''main_function'' = Some (JStr f)
           \<and> map_of (ast_if_main fileInfo tree_body) ''type'' =
               Some (JStr (if str_in ''unittest'' f \<or> str_in ''test'' (fileNameBase fileInfo)
                           then ''test'' else ''script''))"
proof -
  obtain flag func where l: "if_main_loop fileInfo (filter is_If tree_body) 0 [] = (flag, func)"
    by (cases "if_main_loop fileInfo (filter is_If tree_body) 0 []") auto
  with assms have "flag = 1"
    by (auto simp: ast_if_main_def Let_def split: if_splits)
  with l show ?thesis
    by (auto simp: ast_if_main_def Let_def)
qed

theorem ast_if_main_type_witness:
  "map_of (ast_if_main \<lparr>path = ''/r/test_io.py'', fileNameBase = ''test_io'', extension = ''py'', doc = JDict []\<rparr>
             [If (Compare (Name ''__name__'') [Constant (CStr ''__main__'')])
                 [Expr (Call (Name ''main'') [])] []]) ''main_flag'' = Some (JInt 1)
   \<and> map_of (ast_if_main \<lparr>path = ''/r/test_io.py'', fileNameBase = ''test_io'', extension = ''py'', doc = JDict []\<rparr>
             [If (Compare (Name ''__name__'') [Constant (CStr ''__main__'')])
                 [Expr (Call (Name ''main'') [])] []]) ''type'' = Some (JStr ''test'')"
proof -
  let ?m = "ast_if_main \<lparr>path = ''/r/test_io.py'', fileNameBase = ''test_io'', extension = ''py'', doc = JDict []\<rparr>
             [If (Compare (Name ''__name__'') [Constant (CStr ''__main__'')])
                 [Expr (Call (Name ''main'') [])] []]"
  have f: "map_of ?m ''main_flag'' = Some (JInt 1)"
    by (simp add: ast_if_main_def comparators_0_s_def index_def)
  from ast_if_main_type[OF f] have "map_of ?m ''type'' = Some (JStr ''test'')"
    by auto
  with f show ?thesis by simp
qed

text \<open>
  Without a conditional that compares against \<^verbatim>\<open>"__main__"\<close> the flag stays \<open>0\<close> and no
  type is recorded.
\<close>

lemma comparators_0_s_main:
  assumes "comparators_0_s test = Inr (CStr ''__main__'')"
  shows "compares_with_main (If test body orelse)"
proof (cases test)
  case (Compare l comparators)
  with assms show ?thesis
    by (cases comparators) (auto simp: comparators_0_s_def index_def split: expr.splits)
qed (use assms in \<open>auto simp: comparators_0_s_def\<close>)

lemma if_main_loop_flag:
  "\<forall>node \<in> set nodes. \<not> compares_with_main node
     \<Longrightarrow> fst (if_main_loop fileInfo nodes flag func) = flag"
proof (induction nodes arbitrary: flag func)
  case Nil
  then show ?case by simp
next
  case (Cons node nodes)
  then have ih: "\<And>flag func. fst (if_main_loop fileInfo nodes flag func) = flag"
    by simp
  show ?case
  proof (cases node)
    case (If test body orelse)
    have "comparators_0_s test \<noteq> Inr (CStr ''__main__'')"
      using Cons.prems If comparators_0_s_main[of test body orelse] by auto
    then show ?thesis
      using If ih by (auto simp: Let_def split: sum.splits list.splits option.splits)
  qed (use ih in auto)
qed

lemma ast_if_main_no_main:
  assumes "\<forall>node \<in> set tree_body. \<not> compares_with_main node"
  shows "map_of (ast_if_main fileInfo tree_body) ''main_flag'' = Some (JInt 0)"
    and "map_of (ast_if_main fileInfo tree_body) ''type'' = None"
proof -
  obtain flag func where l: "if_main_loop fileInfo (filter is_If tree_body) 0 [] = (flag, func)"
    by (cases "if_main_loop fileInfo (filter is_If tree_body) 0 []") auto
  have "flag = 0"
    using if_main_loop_flag[of "filter is_If tree_body" fileInfo 0 "[]"] assms l by auto
  with l show "map_of (ast_if_main fileInfo tree_body) ''main_flag'' = Some (JInt 0)"
    and "map_of (ast_if_main fileInfo tree_body) ''type'' = None"
    by (auto simp: ast_if_main_def Let_def)
qed

text \<open>
  Claim C8: without a conditional that compares against \<^verbatim>\<open>"__main__"\<close>, the detector
  records no main function.  The code does not do that: the first call in the body of any
  top-level conditional that compares against a constant is recorded, here
  \<^verbatim>\<open>setup()\<close> of \<^verbatim>\<open>if mode == "debug": setup()\<close> in \<^verbatim>\<open>app.py\<close>.
\<close>

theorem ast_if_main_records_function_without_main:
  "ast_if_main \<lparr>path = ''/r/app.py'', fileNameBase = ''app'', extension = ''py'', doc = JDict []\<rparr>
     [If (Compare (Name ''mode'') [Constant (CStr ''debug'')])
         [Expr (Call (Name ''setup'') [])] []]
     = [(''main_flag'', JInt 0), (''main_function'', JStr ''app.setup'')]
   \<and> \<not> compares_with_main
         (If (Compare (Name ''mode'') [Constant (CStr ''debug'')])
             [Expr (Call (Name ''setup'') [])] [])"
  by (simp add: ast_if_main_def comparators_0_s_def index_def)

text \<open>
  Every statement with a value is looked at: the main block \<^verbatim>\<open>total += compute()\<close>
  records \<^verbatim>\<open>compute\<close>, and a block that begins with an annotation without a value
  records the call that follows it; a statement without a value ends the look at the
  block with nothing recorded.
\<close>

lemma ast_if_main_value_statements:
  "ast_if_main \<lparr>path = ''/r/app.py'', fileNameBase = ''app'', extension = ''py'', doc = JDict []\<rparr>
     [If (Compare (Name ''__name__'') [Constant (CStr ''__main__'')])
         [AugAssign (Name ''total'') (Call (Name ''compute'') [])] []]
     = [(''main_flag'', JInt 1), (''main_function'', JStr ''app.compute''), (''type'', JStr ''script'')]"
  "ast_if_main \<lparr>path = ''/r/app.py'', fileNameBase = ''app'', extension = ''py'', doc = JDict []\<rparr>
     [If (Compare (Name ''__name__'') [Constant (CStr ''__main__'')])
         [AnnAssign (Name ''n'') (Name ''int'') None,
          AnnAssign (Name ''m'') (Name ''int'') (Some (Call (Name ''size'') [])),
          Expr (Call (Name ''main'') [])] []]
     = [(''main_flag'', JInt 1), (''main_function'', JStr ''app.size''), (''type'', JStr ''script'')]"
  "ast_if_main \<lparr>path = ''/r/app.py'', fileNameBase = ''app'', extension = ''py'', doc = JDict []\<rparr>
     [If (Compare (Name ''__name__'') [Constant (CStr ''__main__'')])
         [OtherStmt, Expr (Call (Name ''main'') [])] []]
     = [(''main_flag'', JInt 1), (''main_function'', JStr []), (''type'', JStr ''script'')]"
  by (simp_all add: ast_if_main_def comparators_0_s_def index_def)


section \<open>Properties of the entry point\<close>

text \<open>
  Claim C4, as stated: for an input path that does not exist the process ends with a
  non-success exit status.  It fails: \<^verbatim>\<open>sys.exit()\<close> is called without an argument, and
  the exit status is \<open>0\<close>.
\<close>

theorem main_missing_path_exit_status:
  "exit_status (outcome (main nothing_exists nothing_exists no_inspection no_inspection ''missing'')) = 0"
  by (simp add: main_def nothing_exists_def sys_exit_def print_def)

text \<open>
  Claim C4, amended: when the input path is neither an existing file nor an existing
  directory, the process prints the diagnostic and ends at once by \<^verbatim>\<open>sys.exit()\<close>,
  with exit status \<open>0\<close> and nothing else printed, neither mode of inspection being run;
  for every existing input path that branch is not taken and the run is that of the
  single-file mode or of the directory mode.
\<close>

theorem main_input_path_check:
  "(\<not> isfile input_path \<and> \<not> isdir input_path \<longrightarrow>
      main isfile isdir single_file_mode directory_mode input_path =
        \<lparr>stdout = [''The file or directory specified does not exist''], outcome = SystemExit None\<rparr>
      \<and> exit_status (outcome (main isfile isdir single_file_mode directory_mode input_path)) = 0)
   \<and> (isfile input_path \<or> isdir input_path \<longrightarrow>
      main isfile isdir single_file_mode directory_mode input_path =
        (if isfile input_path then single_file_mode input_path \<lparr>stdout = [], outcome = Returned\<rparr>
         else directory_mode input_path \<lparr>stdout = [], outcome = Returned\<rparr>))"
  by (auto simp: main_def sys_exit_def print_def)

theorem main_input_path_check_witness:
  "main nothing_exists nothing_exists no_inspection no_inspection ''missing'' =
     \<lparr>stdout = [''The file or directory specified does not exist''], outcome = SystemExit None\<rparr>
   \<and> main (only_exists ''a.py'') nothing_exists print no_inspection ''a.py'' =
     \<lparr>stdout = [''a.py''], outcome = Returned\<rparr>"
  using main_input_path_check[of nothing_exists "''missing''" nothing_exists no_inspection no_inspection]
    main_input_path_check[of "only_exists ''a.py''" "''a.py''" nothing_exists print no_inspection]
  by (simp add: nothing_exists_def only_exists_def print_def)


section \<open>Properties of call-name resolution\<close>

lemma split_no_sep: "c \<notin> set xs \<Longrightarrow> split c xs = [xs]"
  by (induction xs) auto

lemma split_super: "CHR ''.'' \<notin> set meth \<Longrightarrow> split CHR ''.'' (''super().'' @ meth) = [''super()'', meth]"
  by (simp add: split_no_sep)

text \<open>
  The search walks past the bases on which it fails: with enough nesting allowed, the
  search of \<open>pre @ ys\<close> is the search of \<open>ys\<close>.
\<close>

lemma dfs_search_fails:
  assumes "search_fails classes_info meth pre"
  shows "\<exists>n. \<forall>limit > n. \<forall>ys renamed_calls.
           dfs limit fileInfo hasattr_str (pre @ ys) meth 0 classes_info renamed_calls
             = dfs limit fileInfo hasattr_str ys meth 0 classes_info renamed_calls"
  using assms
proof (induction rule: search_fails.induct)
  case search_fails_Nil
  show ?case by simp
next
  case (search_fails_Cons ext c exts)
  from search_fails_Cons.IH(1) obtain n1 where n1: "\<forall>limit > n1. \<forall>ys renamed_calls.
      dfs limit fileInfo hasattr_str (extend c @ ys) meth 0 classes_info renamed_calls
        = dfs limit fileInfo hasattr_str ys meth 0 classes_info renamed_calls"
    by blast
  from search_fails_Cons.IH(2) obtain n2 where n2: "\<forall>limit > n2. \<forall>ys renamed_calls.
      dfs limit fileInfo hasattr_str (exts @ ys) meth 0 classes_info renamed_calls
        = dfs limit fileInfo hasattr_str ys meth 0 classes_info renamed_calls"
    by blast
  have "\<forall>limit > max (Suc n1) n2. \<forall>ys renamed_calls.
      dfs limit fileInfo hasattr_str ((ext # exts) @ ys) meth 0 classes_info renamed_calls
        = dfs limit fileInfo hasattr_str ys meth 0 classes_info renamed_calls"
  proof (intro allI impI)
    fix limit ys renamed_calls
    assume l: "max (Suc n1) n2 < limit"
    then obtain depth where d: "limit = Suc depth" and d1: "n1 < depth"
      by (cases limit) auto
    from d1 obtain depth' where d': "depth = Suc depth'"
      by (cases depth) auto
    have "dfs depth fileInfo hasattr_str (extend c @ []) meth 0 classes_info renamed_calls
            = dfs depth fileInfo hasattr_str [] meth 0 classes_info renamed_calls"
      using n1 d1 by blast
    then have up: "dfs depth fileInfo hasattr_str (extend c) meth 0 classes_info renamed_calls
            = Inr (0, renamed_calls)"
      using d' by simp
    have "dfs limit fileInfo hasattr_str (exts @ ys) meth 0 classes_info renamed_calls
            = dfs limit fileInfo hasattr_str ys meth 0 classes_info renamed_calls"
      using n2 l by simp
    then show "dfs limit fileInfo hasattr_str ((ext # exts) @ ys) meth 0 classes_info renamed_calls
        = dfs limit fileInfo hasattr_str ys meth 0 classes_info renamed_calls"
      using d up search_fails_Cons.hyps(1,2) by simp
  qed
  then show ?case by blast
qed

text \<open>
  What the code does for \<^verbatim>\<open>super().meth()\<close> when the search reaches \<open>parent\<close>, a class of
  the file that declares \<open>meth\<close>, after failing on the bases listed before it: the call is
  rendered \<^verbatim>\<open>super().meth\<close> and resolved to \<open>file-base.parent.meth\<close>, the one name added
  to the resolved calls.  The method name has no dot, no class is named like the call, and
  no local variable is named \<^verbatim>\<open>super()\<close>.
\<close>

lemma super_call_resolves_to_parent:
  assumes "search_fails classes_info meth pre"
    and "map_of classes_info parent = Some parent_info"
    and "has_key (methods parent_info) meth"
    and "CHR ''.'' \<notin> set meth"
    and "\<not> has_key classes_info (''super().'' @ meth)"
    and "map_of f_store_vars (Some ''super()'') = None"
  shows "get_func_name (Attribute (Call (Name ''super'') args) meth) = Some (''super().'' @ meth)"
    and "\<exists>n. \<forall>limit > n.
           fill_call limit fileInfo depInfo hasattr_str funct_def_info classes_info child
             (pre @ parent # rest) body f_store_vars renamed_calls (Some (''super().'' @ meth))
           = Inr (renamed_calls @ [fileNameBase fileInfo @ ''.'' @ parent @ ''.'' @ meth])"
proof -
  show "get_func_name (Attribute (Call (Name ''super'') args) meth) = Some (''super().'' @ meth)"
    by simp
  from dfs_search_fails[OF assms(1), of fileInfo hasattr_str] obtain n where n: "\<forall>limit > n. \<forall>ys renamed_calls.
      dfs limit fileInfo hasattr_str (pre @ ys) meth 0 classes_info renamed_calls
        = dfs limit fileInfo hasattr_str ys meth 0 classes_info renamed_calls"
    by blast
  have s: "split CHR ''.'' (''super().'' @ meth) = [''super()'', meth]"
    using assms(4) by (rule split_super)
  have "\<forall>limit > n.
           fill_call limit fileInfo depInfo hasattr_str funct_def_info classes_info child
             (pre @ parent # rest) body f_store_vars renamed_calls (Some (''super().'' @ meth))
           = Inr (renamed_calls @ [fileNameBase fileInfo @ ''.'' @ parent @ ''.'' @ meth])"
  proof (intro allI impI)
    fix limit assume l: "n < limit"
    then obtain depth where d: "limit = Suc depth" by (cases limit) auto
    have "dfs limit fileInfo hasattr_str (pre @ parent # rest) meth 0 classes_info renamed_calls
            = dfs limit fileInfo hasattr_str (parent # rest) meth 0 classes_info renamed_calls"
      using n l by blast
    also have "\<dots> = Inr (1, renamed_calls @ [fileNameBase fileInfo @ ''.'' @ parent @ ''.'' @ meth])"
      using assms(2,3) d by simp
    finally show "fill_call limit fileInfo depInfo hasattr_str funct_def_info classes_info child
             (pre @ parent # rest) body f_store_vars renamed_calls (Some (''super().'' @ meth))
           = Inr (renamed_calls @ [fileNameBase fileInfo @ ''.'' @ parent @ ''.'' @ meth])"
      using s assms(5,6)
      by (simp add: fill_call_def fill_call_context_def index_def)
  qed
  then show "\<exists>n. \<forall>limit > n.
           fill_call limit fileInfo depInfo hasattr_str funct_def_info classes_info child
             (pre @ parent # rest) body f_store_vars renamed_calls (Some (''super().'' @ meth))
           = Inr (renamed_calls @ [fileNameBase fileInfo @ ''.'' @ parent @ ''.'' @ meth])"
    by blast
qed

text \<open>
  Three files \<^verbatim>\<open>shapes.py\<close> in which a method \<^verbatim>\<open>go\<close> of \<^verbatim>\<open>Child\<close> calls
  \<^verbatim>\<open>super().run()\<close> and \<^verbatim>\<open>Parent\<close> declares \<^verbatim>\<open>run\<close>.  With
  \<^verbatim>\<open>class Child(Parent)\<close> the call resolves to \<^verbatim>\<open>shapes.Parent.run\<close>; so it does with
  \<^verbatim>\<open>class Child(Base, Parent)\<close> when \<^verbatim>\<open>Base\<close> is a class of the file without
  \<^verbatim>\<open>run\<close>, the search walking past it; with \<^verbatim>\<open>class Child(Other, Parent)\<close> where
  \<^verbatim>\<open>Other\<close> declares \<^verbatim>\<open>run\<close> too, the first base in the order of declaration wins.
\<close>

lemma super_call_examples:
  "fill_call_name 1000
     \<lparr>path = ''/r/shapes.py'', fileNameBase = ''shapes'', extension = ''py'', doc = JDict []\<rparr> []
     hasattr_str_py
     [(''go'', FunctInfo [get_func_name (Attribute (Call (Name ''super'') []) ''run''),
                          get_func_name (Name ''super'')] [] [])]
     [(''Parent'', ClassInfo [] [(''run'', FunctInfo [] [] [])]),
      (''Child'', ClassInfo [''Parent'']
         [(''go'', FunctInfo [Some ''super().run'', Some ''super''] [] [])])]
     ''Child'' [''Parent''] 0
   = Inr [(''go'', FunctInfo [Some ''shapes.Parent.run''] [] [])]"
  "fill_call_name 1000
     \<lparr>path = ''/r/shapes.py'', fileNameBase = ''shapes'', extension = ''py'', doc = JDict []\<rparr> []
     hasattr_str_py
     [(''go'', FunctInfo [get_func_name (Attribute (Call (Name ''super'') []) ''run''),
                          get_func_name (Name ''super'')] [] [])]
     [(''Base'', ClassInfo [] [(''stop'', FunctInfo [] [] [])]),
      (''Parent'', ClassInfo [] [(''run'', FunctInfo [] [] [])]),
      (''Child'', ClassInfo [''Base'', ''Parent'']
         [(''go'', FunctInfo [Some ''super().run'', Some ''super''] [] [])])]
     ''Child'' [''Base'', ''Parent''] 0
   = Inr [(''go'', FunctInfo [Some ''shapes.Parent.run''] [] [])]"
  "fill_call_name 1000
     \<lparr>path = ''/r/shapes.py'', fileNameBase = ''shapes'', extension = ''py'', doc = JDict []\<rparr> []
     hasattr_str_py
     [(''go'', FunctInfo [get_func_name (Attribute (Call (Name ''super'') []) ''run''),
                          get_func_name (Name ''super'')] [] [])]
     [(''Other'', ClassInfo [] [(''run'', FunctInfo [] [] [])]),
      (''Parent'', ClassInfo [] [(''run'', FunctInfo [] [] [])]),
      (''Child'', ClassInfo [''Other'', ''Parent'']
         [(''go'', FunctInfo [Some ''super().run'', Some ''super''] [] [])])]
     ''Child'' [''Other'', ''Parent''] 0
   = Inr [(''go'', FunctInfo [Some ''shapes.Other.run''] [] [])]"
  by (simp_all add: fill_call_name_def fill_call_def fill_call_context_def fill_call_other_def
        index_def has_key_def numeral_eq_Suc)

text \<open>
  Claim C7: with \<^verbatim>\<open>Parent\<close> a declared base of \<^verbatim>\<open>Child\<close> that declares \<^verbatim>\<open>run\<close>, the
  search over the ordered base list resolves \<^verbatim>\<open>super().run()\<close> to \<^verbatim>\<open>Parent.run\<close>.  The
  code does not do that when a base listed before \<^verbatim>\<open>Parent\<close> is not a class of the file:
  for \<^verbatim>\<open>class Child(Mixin, Parent)\<close> with \<^verbatim>\<open>Mixin\<close> imported from \<^verbatim>\<open>mixins\<close>, the
  search does not go on to \<^verbatim>\<open>Parent\<close>; its last branch looks \<^verbatim>\<open>Mixin\<close> up in the table
  of the file's classes and raises \<^verbatim>\<open>KeyError\<close>.  With \<^verbatim>\<open>Mixin\<close> declared in the file,
  without \<^verbatim>\<open>run\<close>, the same call resolves to \<^verbatim>\<open>shapes.Parent.run\<close>.
\<close>

theorem super_call_raises_on_unknown_first_base:
  "fill_call_name 1000
     \<lparr>path = ''/r/shapes.py'', fileNameBase = ''shapes'', extension = ''py'', doc = JDict []\<rparr>
     [\<lparr>from_module = Some ''mixins'', import = ''Mixin'', alias = None\<rparr>]
     hasattr_str_py
     [(''go'', FunctInfo [get_func_name (Attribute (Call (Name ''super'') []) ''run''),
                          get_func_name (Name ''super'')] [] [])]
     [(''Parent'', ClassInfo [] [(''run'', FunctInfo [] [] [])]),
      (''Child'', ClassInfo [''Mixin'', ''Parent'']
         [(''go'', FunctInfo [Some ''super().run'', Some ''super''] [] [])])]
     ''Child'' [''Mixin'', ''Parent''] 0
   = Inl KeyError
   \<and> fill_call_name 1000
     \<lparr>path = ''/r/shapes.py'', fileNameBase = ''shapes'', extension = ''py'', doc = JDict []\<rparr>
     []
     hasattr_str_py
     [(''go'', FunctInfo [get_func_name (Attribute (Call (Name ''super'') []) ''run''),
                          get_func_name (Name ''super'')] [] [])]
     [(''Mixin'', ClassInfo [] [(''stop'', FunctInfo [] [] [])]),
      (''Parent'', ClassInfo [] [(''run'', FunctInfo [] [] [])]),
      (''Child'', ClassInfo [''Mixin'', ''Parent'']
         [(''go'', FunctInfo [Some ''super().run'', Some ''super''] [] [])])]
     ''Child'' [''Mixin'', ''Parent''] 0
   = Inr [(''go'', FunctInfo [Some ''shapes.Parent.run''] [] [])]"
  by (simp add: fill_call_name_def fill_call_def fill_call_context_def fill_call_other_def
        index_def has_key_def hasattr_str_py_def numeral_eq_Suc)

text \<open>The same for every such table: an unknown first base without the attribute raises.\<close>

lemma dfs_raises_on_unknown_base:
  "map_of classes_info ext = None \<Longrightarrow> \<not> hasattr_str meth \<Longrightarrow>
     dfs (Suc depth) fileInfo hasattr_str (ext # exts) meth renamed classes_info renamed_calls
       = Inl KeyError"
  by simp

text \<open>
  Claim C9: resolution never raises, whatever the call target.  The code does raise for
  a call in the module body whose target is neither a name nor an attribute chain, such
  as \<^verbatim>\<open>handlers[0]()\<close>: its raw name is \<^verbatim>\<open>None\<close>, the body's call list keeps it, and
  \<^verbatim>\<open>None.split\<close> raises \<^verbatim>\<open>AttributeError\<close> in \<^verbatim>\<open>_fill_call_name\<close>.
\<close>

theorem inspect_body_raises_on_subscript_call:
  "get_func_name (Subscript (Name ''handlers'') (Constant (CNum 0))) = None
   \<and> inspect_body limit fileInfo depInfo hasattr_str classesInfo
        [Expr (Call (Subscript (Name ''handlers'') (Constant (CNum 0))) [])] = Inl AttributeError"
  by (simp add: inspect_body_def fill_call_name_def fill_call_def)

text \<open>
  A call on an unknown base class raises too: \<^verbatim>\<open>super().setup()\<close> in a class whose
  base is not a class of the file and is a name without the attribute \<^verbatim>\<open>setup\<close>.
\<close>

lemma fill_call_raises_on_unknown_base:
  "fill_call 1000 fileInfo depInfo hasattr_str_py funct_def_info [] ''Child'' [''Base''] 0 [] []
     (Some ''super().setup'') = Inl KeyError"
  by (simp add: fill_call_def fill_call_context_def index_def has_key_def hasattr_str_py_def
        numeral_eq_Suc)


section \<open>Pruning leaves its argument as it was\<close>

lemma length_setitem: "length (setitem h d k v) = length h"
  by (auto simp: setitem_def split: option.splits pyobj.splits)

lemma take_setitem: "N \<le> d \<Longrightarrow> take N (setitem h d k v) = take N h"
  by (auto simp: setitem_def split: option.splits pyobj.splits)

text \<open>
  The frame of the three functions: the objects below \<open>N\<close> are untouched, for every \<open>N\<close>
  up to the size of the store (and up to \<open>final_dict\<close>, the one address written to).
  First the two loops, given the property of the calls they make.
\<close>

lemma frame_elems:
  assumes J: "\<And>h v N. N \<le> length h \<Longrightarrow>
      take N (fst (prune_json_store limit h v)) = take N h
      \<and> length h \<le> length (fst (prune_json_store limit h v))"
  shows "N \<le> length h \<Longrightarrow>
      take N (fst (prune_elems_store limit h xs)) = take N h
      \<and> length h \<le> length (fst (prune_elems_store limit h xs))"
proof (induction xs arbitrary: h)
  case Nil
  then show ?case by simp
next
  case (Cons i b)
  obtain h1 r1 where p: "prune_json_store limit h i = (h1, r1)" by fastforce
  from J[OF Cons.prems, of i] p have 1: "take N h1 = take N h" "length h \<le> length h1" by auto
  show ?case
  proof (cases r1)
    case (Inl e)
    with p 1 show ?thesis by simp
  next
    case (Inr v)
    obtain h2 r2 where q: "prune_elems_store limit h1 b = (h2, r2)" by fastforce
    from Cons.IH[of h1] Cons.prems 1 q have 2: "take N h2 = take N h1" "length h1 \<le> length h2"
      by auto
    show ?thesis using p Inr q 1 2 by (cases r2) auto
  qed
qed

lemma frame_items:
  assumes J: "\<And>h v N. N \<le> length h \<Longrightarrow>
      take N (fst (prune_json_store limit h v)) = take N h
      \<and> length h \<le> length (fst (prune_json_store limit h v))"
  shows "N \<le> length h \<Longrightarrow> N \<le> f \<Longrightarrow>
      take N (fst (prune_items_store limit h f items)) = take N h
      \<and> length h \<le> length (fst (prune_items_store limit h f items))"
proof (induction items arbitrary: h)
  case Nil
  then show ?case by simp
next
  case (Cons item rest)
  obtain a b where item: "item = (a, b)" by (cases item)
  have ih: "\<And>h'. take N h' = take N h \<Longrightarrow> length h \<le> length h' \<Longrightarrow>
      take N (fst (prune_items_store limit h' f rest)) = take N h
      \<and> length h \<le> length (fst (prune_items_store limit h' f rest))"
  proof -
    fix h' assume t: "take N h' = take N h" and l: "length h \<le> length h'"
    from Cons.IH[of h'] Cons.prems l t show "take N (fst (prune_items_store limit h' f rest)) = take N h
      \<and> length h \<le> length (fst (prune_items_store limit h' f rest))" by auto
  qed
  have set: "\<And>h' k v. take N h' = take N h \<Longrightarrow> length h \<le> length h' \<Longrightarrow>
      take N (fst (prune_items_store limit (setitem h' f k v) f rest)) = take N h
      \<and> length h \<le> length (fst (prune_items_store limit (setitem h' f k v) f rest))"
    using ih Cons.prems(2) by (simp add: take_setitem length_setitem)
  show ?case
  proof (cases "truthy_at h b")
    case False
    then show ?thesis using item ih[of h] by simp
  next
    case True
    show ?thesis
    proof (cases b)
      case (VRef r)
      show ?thesis
      proof (cases "deref h r")
        case None
        with True VRef show ?thesis by simp
      next
        case (Some obj)
        show ?thesis
        proof (cases obj)
          case (ODict d)
          obtain h1 r1 where p: "prune_json_store limit h b = (h1, r1)" by fastforce
          from J[OF Cons.prems(1), of b] p have 1: "take N h1 = take N h" "length h \<le> length h1"
            by auto
          show ?thesis
          proof (cases r1)
            case (Inl e)
            with item True VRef Some ODict p 1 show ?thesis by simp
          next
            case (Inr aux_dict)
            with item True VRef Some ODict p ih[OF 1] set[OF 1] show ?thesis by simp
          qed
        next
          case (OList ys)
          obtain h1 r1 where p: "prune_elems_store limit h ys = (h1, r1)" by fastforce
          from frame_elems[OF J Cons.prems(1), of ys] p
          have 1: "take N h1 = take N h" "length h \<le> length h1"
            by auto
          show ?thesis
          proof (cases r1)
            case (Inl e)
            with item True VRef Some OList p 1 show ?thesis by simp
          next
            case (Inr vs)
            have 2: "take N (h1 @ [OList (filter (truthy_at h1) vs)]) = take N h"
              "length h \<le> length (h1 @ [OList (filter (truthy_at h1) vs)])"
              using 1 Cons.prems(1) by auto
            from item True VRef Some OList p Inr ih[OF 1] set[OF 2] show ?thesis
              by (simp add: alloc_def Let_def)
          qed
        qed
      qed
    qed (use item True set[of h] in auto)
  qed
qed

lemma frame_json:
  "N \<le> length h \<Longrightarrow>
      take N (fst (prune_json_store limit h v)) = take N h
      \<and> length h \<le> length (fst (prune_json_store limit h v))"
proof (induction limit arbitrary: h v N)
  case 0
  then show ?case by simp
next
  case (Suc limit)
  have a: "take N (h @ [ODict []]) = take N h" "length h \<le> length (h @ [ODict []])"
    using Suc.prems by auto
  show ?case
  proof (cases v)
    case (VRef r)
    show ?thesis
    proof (cases "deref (h @ [ODict []]) r")
      case None
      with VRef a show ?thesis by (simp add: alloc_def)
    next
      case (Some obj)
      show ?thesis
      proof (cases obj)
        case (ODict items)
        from frame_items[of limit N "h @ [ODict []]" "length h" items] Suc.IH Suc.prems
        have "take N (fst (prune_items_store limit (h @ [ODict []]) (length h) items)) = take N (h @ [ODict []])
          \<and> length (h @ [ODict []]) \<le> length (fst (prune_items_store limit (h @ [ODict []]) (length h) items))"
          by simp
        with VRef Some ODict a show ?thesis by (simp add: alloc_def)
      next
        case (OList xs)
        with VRef Some a show ?thesis by (simp add: alloc_def)
      qed
    qed
  qed (use a in \<open>simp_all add: alloc_def\<close>)
qed

text \<open>A value reads as the same tree in every store that extends the one it was read in.\<close>

lemma deref_take:
  assumes "take (length h) h' = h" and "deref h a = Some obj"
  shows "deref h' a = Some obj"
proof -
  from assms(2) have a: "a < length h" and o: "h ! a = obj"
    by (auto simp: deref_def split: if_splits)
  have "length (take (length h) h') = length h"
    using arg_cong[OF assms(1), of length] .
  then have l: "length h \<le> length h'" by simp
  have "h' ! a = take (length h) h' ! a" using a by simp
  with assms(1) o a l show ?thesis by (simp add: deref_def)
qed

lemma read_json_stable:
  assumes "take (length h) h' = h"
  shows "read_json k h v = Some t \<longrightarrow> read_json k h' v = Some t"
    and "read_items k' h items = Some ts \<longrightarrow> read_items k' h' items = Some ts"
    and "read_elems k'' h xs = Some us \<longrightarrow> read_elems k'' h' xs = Some us"
  using assms
proof (induction k h v and k' h items and k'' h xs arbitrary: t and ts and us
       rule: read_json_read_items_read_elems.induct)
  case (6 n h a)
  show ?case
  proof (cases "deref h a")
    case None
    then show ?thesis by simp
  next
    case (Some obj)
    with 6 deref_take[OF "6.prems" Some] show ?thesis
      by (cases obj) auto
  qed
next
  case (8 n h k v rest)
  then show ?case by (auto split: option.splits)
next
  case (10 n h v rest)
  then show ?case by (auto split: option.splits)
qed auto

text \<open>
  \<open>file_json_store\<close> assembles the report as a new object and prunes from there; the
  report that it returns is the dictionary it assembled.
\<close>

lemma file_json_store_assembled:
  "file_json_store limit h fileInfo depInfo classesInfo funcsInfo body controlFlowInfo main_info =
     (case prune_json_store limit
             (h @ [ODict [(''file'', fileInfo), (''dependencies'', depInfo), (''classes'', classesInfo),
                          (''functions'', funcsInfo), (''body'', body),
                          (''controlflow'', controlFlowInfo), (''main_info'', main_info)]])
             (VRef (length h)) of
        (h', dumped) \<Rightarrow> (h', length h, dumped))"
proof -
  have "(setitem (setitem (setitem (setitem (setitem (setitem (setitem (h @ [ODict []])
          (length h) ''file'' fileInfo)
          (length h) ''dependencies'' depInfo) (length h) ''classes'' classesInfo)
          (length h) ''functions'' funcsInfo) (length h) ''body'' body)
          (length h) ''controlflow'' controlFlowInfo) (length h) ''main_info'' main_info)
        = h @ [ODict [(''file'', fileInfo), (''dependencies'', depInfo), (''classes'', classesInfo),
                      (''functions'', funcsInfo), (''body'', body),
                      (''controlflow'', controlFlowInfo), (''main_info'', main_info)]]"
    by (simp add: setitem_def deref_def)
  then show ?thesis
    by (simp add: file_json_store_def alloc_def Let_def)
qed

lemma file_json_store_report:
  assumes "file_json_store limit h fileInfo depInfo classesInfo funcsInfo body controlFlowInfo
             main_info = (h', file_dict, dumped)"
  shows "take (length h) h' = h \<and> file_dict = length h
   \<and> deref h' file_dict = Some (ODict
        [(''file'', fileInfo), (''dependencies'', depInfo), (''classes'', classesInfo),
         (''functions'', funcsInfo), (''body'', body), (''controlflow'', controlFlowInfo),
         (''main_info'', main_info)])"
proof -
  let ?d = "ODict
        [(''file'', fileInfo), (''dependencies'', depInfo), (''classes'', classesInfo),
         (''functions'', funcsInfo), (''body'', body), (''controlflow'', controlFlowInfo),
         (''main_info'', main_info)]"
  from assms have c: "h' = fst (prune_json_store limit (h @ [?d]) (VRef (length h)))"
    and d: "file_dict = length h"
    by (auto simp: file_json_store_assembled split: prod.splits)
  from frame_json[of "Suc (length h)" "h @ [?d]" limit "VRef (length h)"] c
  have e: "take (Suc (length h)) h' = h @ [?d]" "Suc (length h) \<le> length h'" by auto
  have "take (length h) (take (Suc (length h)) h') = take (length h) (h @ [?d])"
    using e(1) by simp
  then have "take (length h) h' = h" by simp
  moreover have "take (Suc (length h)) h' ! length h = (h @ [?d]) ! length h"
    using e(1) by simp
  then have "h' ! length h = ?d" by simp
  ultimately show ?thesis using d e by (simp add: deref_def)
qed

text \<open>
  Claim C10: \<open>prune_json\<close> leaves its argument unchanged.  Every object that exists
  before the call is the same after it, whether the call returns or raises, so every
  value reads as the same tree as before; the only object written to is the new
  \<open>final_dict\<close>.  Hence the report that \<open>file_json\<close> returns, and that the caller stores
  in the directory report, still holds all seven parts as they were assembled, the empty
  ones included.
\<close>

theorem prune_json_store_frame:
  "take (length h) (fst (prune_json_store limit h json_dict)) = h
   \<and> (read_json k h v = Some t \<longrightarrow> read_json k (fst (prune_json_store limit h json_dict)) v = Some t)
   \<and> (file_json_store limit h fileInfo depInfo classesInfo funcsInfo body controlFlowInfo main_info
         = (h', file_dict, dumped) \<longrightarrow>
       take (length h) h' = h
       \<and> deref h' file_dict = Some (ODict
            [(''file'', fileInfo), (''dependencies'', depInfo), (''classes'', classesInfo),
             (''functions'', funcsInfo), (''body'', body), (''controlflow'', controlFlowInfo),
             (''main_info'', main_info)]))"
proof -
  have f: "take (length h) (fst (prune_json_store limit h json_dict)) = h"
    using frame_json[of "length h" h limit json_dict] by simp
  show ?thesis
    using f read_json_stable(1)[OF f] file_json_store_report by blast
qed

text \<open>
  On the example the written tree has lost five of the seven parts and the empty
  docstring; the stored report has them all.
\<close>

lemma example_prune_eval:
  "prune_json_store 100
     (example_store @
      [ODict [(''file'', VRef 0), (''dependencies'', VRef 3), (''classes'', VRef 4),
              (''functions'', VRef 5), (''body'', VRef 6), (''controlflow'', VRef 8),
              (''main_info'', VRef 9)]])
     (VRef 10) =
     (example_store @
      [ODict [(''file'', VRef 0), (''dependencies'', VRef 3), (''classes'', VRef 4),
              (''functions'', VRef 5), (''body'', VRef 6), (''controlflow'', VRef 8),
              (''main_info'', VRef 9)],
       ODict [(''file'', VRef 12), (''controlflow'', VRef 15)],
       ODict [(''fileNameBase'', VStr ''a'')], ODict [], ODict [],
       ODict [(''cfg'', VStr ''a.txt''), (''png'', VStr ''None'')], ODict []],
      Inr (VRef 11))"
  by (simp add: example_store_def alloc_def setitem_def deref_def numeral_eq_Suc)

lemma example_file_json_eval:
  "example_file_json =
     (example_store @
      [ODict [(''file'', VRef 0), (''dependencies'', VRef 3), (''classes'', VRef 4),
              (''functions'', VRef 5), (''body'', VRef 6), (''controlflow'', VRef 8),
              (''main_info'', VRef 9)],
       ODict [(''file'', VRef 12), (''controlflow'', VRef 15)],
       ODict [(''fileNameBase'', VStr ''a'')], ODict [], ODict [],
       ODict [(''cfg'', VStr ''a.txt''), (''png'', VStr ''None'')], ODict []],
      10, Inr (VRef 11))"
proof -
  have l: "length example_store = 10" by (simp add: example_store_def)
  show ?thesis
    unfolding example_file_json_def file_json_store_assembled l example_prune_eval by simp
qed

theorem prune_json_store_frame_witness:
  "read_json 10 example_store (VRef 6) = Some (JDict [(''calls'', JList [])])
   \<and> read_json 10 (fst example_file_json) (VRef 6) = Some (JDict [(''calls'', JList [])])
   \<and> deref (fst example_file_json) 10 = Some (ODict
        [(''file'', VRef 0), (''dependencies'', VRef 3), (''classes'', VRef 4),
         (''functions'', VRef 5), (''body'', VRef 6), (''controlflow'', VRef 8),
         (''main_info'', VRef 9)])
   \<and> take 10 (fst example_file_json) = example_store
   \<and> read_json 10 (fst example_file_json) (VRef 11) =
        Some (JDict [(''file'', JDict [(''fileNameBase'', JStr ''a'')]),
                     (''controlflow'', JDict [(''cfg'', JStr ''a.txt''), (''png'', JStr ''None'')])])"
proof -
  let ?h' = "fst example_file_json"
  have r: "read_json 10 example_store (VRef 6) = Some (JDict [(''calls'', JList [])])"
    by code_simp
  have w: "read_json 10 ?h' (VRef 11) =
        Some (JDict [(''file'', JDict [(''fileNameBase'', JStr ''a'')]),
                     (''controlflow'', JDict [(''cfg'', JStr ''a.txt''), (''png'', JStr ''None'')])])"
    unfolding example_file_json_eval by code_simp
  have l: "length example_store = 10" by (simp add: example_store_def)
  have e: "file_json_store 100 example_store (VRef 0) (VRef 3) (VRef 4) (VRef 5) (VRef 6) (VRef 8)
             (VRef 9) = (?h', 10, Inr (VRef 11))"
    using example_file_json_eval by (simp add: example_file_json_def)
  from prune_json_store_frame
    [of example_store 100 "VRef 0" 10 "VRef 6" "JDict [(''calls'', JList [])]"
        "VRef 0" "VRef 3" "VRef 4" "VRef 5" "VRef 6" "VRef 8" "VRef 9" ?h' 10 "Inr (VRef 11)"]
    r e l
  have "take 10 ?h' = example_store"
    and "deref ?h' 10 = Some (ODict
        [(''file'', VRef 0), (''dependencies'', VRef 3), (''classes'', VRef 4),
         (''functions'', VRef 5), (''body'', VRef 6), (''controlflow'', VRef 8),
         (''main_info'', VRef 9)])"
    by simp_all
  moreover have "read_json 10 ?h' (VRef 6) = Some (JDict [(''calls'', JList [])])"
    unfolding example_file_json_eval by code_simp
  ultimately show ?thesis using r w by simp
qed


end
